theory Spec2Isabelle
  imports Complex_Main "HOL-Library.Sublist"
begin

section \<open>Numbers, time and strings of the Go program\<close>

text \<open>
  The controller computes its thresholds and ratios in \<^verbatim>\<open>float64\<close>. A \<^verbatim>\<open>float64\<close> is
  modelled as a rational number or one of the three IEEE special values. Arithmetic on
  finite values is exact in the model: the rounding of binary floating point to 53 bits
  is not represented. The special values follow IEEE 754 as Go implements it, so a
  division by zero is an infinity or a NaN, and every comparison with a NaN is false.
  The only divisors of the program are integers converted to \<^verbatim>\<open>float64\<close>, so a zero
  divisor is the positive zero.
\<close>

datatype float64 = Fin rat | PInf | NInf | NaN

definition float64_of_int :: "int \<Rightarrow> float64" where
  "float64_of_int i = Fin (of_int i)"

fun fneg :: "float64 \<Rightarrow> float64" where
  "fneg (Fin a) = Fin (- a)"
| "fneg PInf = NInf"
| "fneg NInf = PInf"
| "fneg NaN = NaN"

fun fadd :: "float64 \<Rightarrow> float64 \<Rightarrow> float64" where
  "fadd (Fin a) (Fin b) = Fin (a + b)"
| "fadd NaN _ = NaN"
| "fadd _ NaN = NaN"
| "fadd PInf NInf = NaN"
| "fadd NInf PInf = NaN"
| "fadd PInf _ = PInf"
| "fadd NInf _ = NInf"
| "fadd (Fin a) PInf = PInf"
| "fadd (Fin a) NInf = NInf"

definition fsub :: "float64 \<Rightarrow> float64 \<Rightarrow> float64" where
  "fsub x y = fadd x (fneg y)"

fun fsignum :: "float64 \<Rightarrow> int" where
  "fsignum (Fin a) = (if a = 0 then 0 else if 0 < a then 1 else - 1)"
| "fsignum PInf = 1"
| "fsignum NInf = - 1"
| "fsignum NaN = 0"

fun fmul :: "float64 \<Rightarrow> float64 \<Rightarrow> float64" where
  "fmul (Fin a) (Fin b) = Fin (a * b)"
| "fmul NaN _ = NaN"
| "fmul _ NaN = NaN"
| "fmul x y =
     (if fsignum x * fsignum y = 0 then NaN
      else if 0 < fsignum x * fsignum y then PInf else NInf)"

fun fdiv :: "float64 \<Rightarrow> float64 \<Rightarrow> float64" where
  "fdiv (Fin a) (Fin b) =
     (if b = 0 then (if a = 0 then NaN else if 0 < a then PInf else NInf)
      else Fin (a / b))"
| "fdiv NaN _ = NaN"
| "fdiv _ NaN = NaN"
| "fdiv (Fin a) _ = Fin 0"
| "fdiv PInf (Fin b) = (if 0 \<le> b then PInf else NInf)"
| "fdiv NInf (Fin b) = (if 0 \<le> b then NInf else PInf)"
| "fdiv _ _ = NaN"

fun flt :: "float64 \<Rightarrow> float64 \<Rightarrow> bool" where
  "flt (Fin a) (Fin b) = (a < b)"
| "flt NaN _ = False"
| "flt _ NaN = False"
| "flt NInf y = (y \<noteq> NInf)"
| "flt x PInf = (x \<noteq> PInf)"
| "flt _ _ = False"

definition fgt :: "float64 \<Rightarrow> float64 \<Rightarrow> bool" where
  "fgt x y = flt y x"

fun math_Ceil :: "float64 \<Rightarrow> float64" where
  "math_Ceil (Fin a) = Fin (of_int \<lceil>a\<rceil>)"
| "math_Ceil x = x"

fun math_Floor :: "float64 \<Rightarrow> float64" where
  "math_Floor (Fin a) = Fin (of_int \<lfloor>a\<rfloor>)"
| "math_Floor x = x"

text \<open>
  \<^verbatim>\<open>math.Max\<close> and \<^verbatim>\<open>math.Min\<close> test the infinity of their own direction first and NaN
  second, as the Go library documents.
\<close>

definition math_Max :: "float64 \<Rightarrow> float64 \<Rightarrow> float64" where
  "math_Max x y =
     (if x = PInf \<or> y = PInf then PInf
      else if x = NaN \<or> y = NaN then NaN
      else if flt x y then y else x)"

definition math_Min :: "float64 \<Rightarrow> float64 \<Rightarrow> float64" where
  "math_Min x y =
     (if x = NInf \<or> y = NInf then NInf
      else if x = NaN \<or> y = NaN then NaN
      else if flt y x then y else x)"

text \<open>
  The values of type \<^verbatim>\<open>int32\<close> and \<^verbatim>\<open>int64\<close> are modelled as integers. The program
  never adds or multiplies two \<^verbatim>\<open>int32\<close> values: it compares them and converts them to
  \<^verbatim>\<open>float64\<close>. The sums of metric samples are \<^verbatim>\<open>int64\<close> additions, which wrap.
\<close>

definition int32_range :: "int \<Rightarrow> bool" where
  "int32_range z = (- 2147483648 \<le> z \<and> z \<le> 2147483647)"

definition int64_range :: "int \<Rightarrow> bool" where
  "int64_range z = (- 9223372036854775808 \<le> z \<and> z \<le> 9223372036854775807)"

definition wrap32 :: "int \<Rightarrow> int" where
  "wrap32 z = (z + 2147483648) mod 4294967296 - 2147483648"

definition wrap64 :: "int \<Rightarrow> int" where
  "wrap64 z = (z + 9223372036854775808) mod 18446744073709551616 - 9223372036854775808"

definition truncate_rat :: "rat \<Rightarrow> int" where
  "truncate_rat a = (if 0 \<le> a then \<lfloor>a\<rfloor> else \<lceil>a\<rceil>)"

type_synonym time = int \<comment> \<open>an instant, in nanoseconds; \<^verbatim>\<open>time.Time{}\<close> is 0\<close>
type_synonym Duration = int \<comment> \<open>nanoseconds\<close>

definition zero_Time :: time where
  "zero_Time = 0"

definition Second :: Duration where
  "Second = 1000000000"

definition Duration_Seconds :: "Duration \<Rightarrow> float64" where
  "Duration_Seconds d = Fin (of_int d / of_int Second)"

text \<open>
  What the program takes from the Go runtime and from its libraries, and what the
  language leaves open. Go truncates a \<^verbatim>\<open>float64\<close> towards zero when it converts it to an
  integer type, and when the integer type cannot hold the value the result depends on
  the implementation: \<open>oor_int32\<close> and \<open>oor_int64\<close> give that result. The clock is read
  once in a reconciliation: \<open>time_Now\<close> is the value of every \<^verbatim>\<open>time.Now()\<close> and
  \<^verbatim>\<open>metav1.Now()\<close> of one call. The parsers of group versions, labels and label selectors
  return an error (\<open>Inl\<close>) or their value, and the three \<open>fmt_v\<close> functions are the
  renderings of \<^verbatim>\<open>%v\<close> in the error and condition messages.
\<close>

record runtime =
  oor_int32 :: "float64 \<Rightarrow> int"
  oor_int64 :: "float64 \<Rightarrow> int"
  time_Now :: time
  ParseGroupVersion :: "string \<Rightarrow> string + string"
  labels_Parse :: "string \<Rightarrow> string + string"
  LabelSelectorAsSelector :: "(string \<times> string) list option \<Rightarrow> string + string"
  fmt_v_MatchLabels :: "(string \<times> string) list \<Rightarrow> string"
  fmt_v_LabelSelector :: "(string \<times> string) list option \<Rightarrow> string"
  fmt_v_Selector :: "string option \<Rightarrow> string"

definition to_int32 :: "runtime \<Rightarrow> float64 \<Rightarrow> int" where
  "to_int32 rt x =
     (case x of
        Fin a \<Rightarrow> if int32_range (truncate_rat a) then truncate_rat a else wrap32 (oor_int32 rt x)
      | _ \<Rightarrow> wrap32 (oor_int32 rt x))"

definition to_int64 :: "runtime \<Rightarrow> float64 \<Rightarrow> int" where
  "to_int64 rt x =
     (case x of
        Fin a \<Rightarrow> if int64_range (truncate_rat a) then truncate_rat a else wrap64 (oor_int64 rt x)
      | _ \<Rightarrow> wrap64 (oor_int64 rt x))"

text \<open>\<^verbatim>\<open>strings.Contains\<close>, and the decimal rendering of \<^verbatim>\<open>%d\<close>.\<close>

primrec strings_Contains :: "string \<Rightarrow> string \<Rightarrow> bool" where
  "strings_Contains [] substr = (substr = [])"
| "strings_Contains (c # cs) substr = (prefix substr (c # cs) \<or> strings_Contains cs substr)"

function fmt_nat :: "nat \<Rightarrow> string" where
  "fmt_nat n =
     (if n < 10 then [char_of (48 + n)]
      else fmt_nat (n div 10) @ [char_of (48 + n mod 10)])"
  by pat_completeness auto
termination
  by (relation "measure id") auto

definition fmt_d :: "int \<Rightarrow> string" where
  "fmt_d i = (if i < 0 then ''-'' @ fmt_nat (nat (- i)) else fmt_nat (nat i))"

section \<open>The data model\<close>

type_synonym LabelSelector = "(string \<times> string) list" \<comment> \<open>the \<^verbatim>\<open>MatchLabels\<close>\<close>

datatype MetricSourceType =
  ExternalMetricSourceType | ResourceMetricSourceType | OtherMetricSourceType string

text \<open>A watermark is a \<^verbatim>\<open>resource.Quantity\<close>; the model keeps its \<^verbatim>\<open>MilliValue()\<close>.\<close>

record ExternalMetricSource =
  ext_MetricName :: string
  ext_MetricSelector :: "LabelSelector option"
  ext_HighWatermark :: "int option"
  ext_LowWatermark :: "int option"

record ResourceMetricSource =
  res_Name :: string
  res_MetricSelector :: "LabelSelector option"
  res_HighWatermark :: "int option"
  res_LowWatermark :: "int option"

record MetricSpec =
  ms_Type :: MetricSourceType
  ms_External :: "ExternalMetricSource option"
  ms_Resource :: "ResourceMetricSource option"

record CrossVersionObjectReference =
  ref_Kind :: string
  ref_Name :: string
  ref_APIVersion :: string

record WatermarkPodAutoscalerSpec =
  DownscaleForbiddenWindowSeconds :: int
  UpscaleForbiddenWindowSeconds :: int
  ScaleUpLimitFactor :: float64
  ScaleDownLimitFactor :: float64
  Tolerance :: float64
  Algorithm :: string
  DryRun :: bool
  ScaleTargetRef :: CrossVersionObjectReference
  Metrics :: "MetricSpec list"
  MinReplicas :: "int option"
  MaxReplicas :: int
  ReadinessDelaySeconds :: int

datatype ConditionStatus = ConditionTrue | ConditionFalse | ConditionUnknown | ConditionUnset

datatype ConditionType =
  AbleToScale | ScalingActive | ScalingLimited | dryRunCondition | OtherConditionType string

record Condition =
  cond_Type :: ConditionType
  cond_Status :: ConditionStatus
  cond_LastTransitionTime :: time
  cond_Reason :: string
  cond_Message :: string

datatype MetricStatus =
  NoMetricStatus
| ExternalMetricStatus "LabelSelector option" string int
| ResourceMetricStatus string int

record WatermarkPodAutoscalerStatus =
  CurrentReplicas :: int
  DesiredReplicas :: int
  CurrentMetrics :: "MetricStatus list"
  LastScaleTime :: "time option"
  Conditions :: "Condition list"

record WatermarkPodAutoscaler =
  wpa_Name :: string
  wpa_Namespace :: string
  Spec :: WatermarkPodAutoscalerSpec
  Status :: WatermarkPodAutoscalerStatus

record Scale =
  scale_Spec_Replicas :: int
  scale_Status_Replicas :: int
  scale_Status_Selector :: string

record ReplicaCalculation =
  replicaCount :: int
  utilization :: int
  timestamp :: time

text \<open>
  A Go call returns its value, returns an error (the text of \<^verbatim>\<open>Error()\<close>), or panics on
  a nil pointer.
\<close>

datatype 'a result = Ok 'a | Err string | Panic

section \<open>The watermark evaluator\<close>

text \<open>
  \<^verbatim>\<open>getReplicaCount\<close>. Logging, the Prometheus gauges and the events of the event
  recorder are left out here and in every function below.
\<close>

definition getReplicaCount ::
  "runtime \<Rightarrow> int \<Rightarrow> WatermarkPodAutoscaler \<Rightarrow> float64 \<Rightarrow> int \<Rightarrow> int \<Rightarrow> int \<times> int" where
  "getReplicaCount rt currentReplicas wpa adjustedUsage lowMark highMark =
     (let utilizationQuantity = to_int64 rt adjustedUsage;
          adjustedHM = fadd (float64_of_int highMark)
                         (fmul (Tolerance (Spec wpa)) (float64_of_int highMark));
          adjustedLM = fsub (float64_of_int lowMark)
                         (fmul (Tolerance (Spec wpa)) (float64_of_int lowMark))
      in if fgt adjustedUsage adjustedHM then
           (to_int32 rt (math_Ceil (fdiv (fmul (float64_of_int currentReplicas) adjustedUsage)
                                         (float64_of_int highMark))),
            utilizationQuantity)
         else if flt adjustedUsage adjustedLM then
           (let replicaCount = to_int32 rt
                  (math_Floor (fdiv (fmul (float64_of_int currentReplicas) adjustedUsage)
                                    (float64_of_int lowMark)))
            in (to_int32 rt (math_Max (float64_of_int replicaCount) (Fin 1)),
                utilizationQuantity))
         else (currentReplicas, utilizationQuantity))"

section \<open>The readiness filter and the replica calculator\<close>

datatype PodPhase = PodPending | PodRunning | PodSucceeded | PodFailed | PodUnknown

datatype PodConditionType = PodReady | OtherPodConditionType string

record PodCondition =
  pc_Type :: PodConditionType
  pc_Status :: ConditionStatus
  pc_LastTransitionTime :: time

record Pod =
  pod_Name :: string
  pod_Namespace :: string
  pod_Phase :: PodPhase
  pod_StartTime :: "time option"
  pod_Conditions :: "PodCondition list"

text \<open>
  The pod lister and the metrics client are the collaborators of the calculator: each
  call returns an error (\<open>Inl\<close>) or its value. A \<^verbatim>\<open>labels.Selector\<close> is kept as a string,
  and \<open>None\<close> is the nil selector that a failed \<^verbatim>\<open>labels.Parse\<close> leaves behind. The
  \<^verbatim>\<open>PodMetricsInfo\<close> map is an association list from pod names (distinct) to the sample
  value; a \<^verbatim>\<open>sets.String\<close> is a list without duplicates.
\<close>

type_synonym PodMetricsInfo = "(string \<times> int) list"

record ReplicaCalculator =
  podLister_List :: "string \<Rightarrow> string option \<Rightarrow> string + Pod list"
  metricsClient_GetExternalMetric :: "string \<Rightarrow> string \<Rightarrow> string \<Rightarrow> string + (int list \<times> time)"
  metricsClient_GetResourceMetric ::
    "string \<Rightarrow> string \<Rightarrow> string \<Rightarrow> string + (PodMetricsInfo \<times> time)"

definition NamespaceAll :: string where
  "NamespaceAll = []"

definition ResourceCPU :: string where
  "ResourceCPU = ''cpu''"

primrec getPodCondition_from ::
  "int \<Rightarrow> PodCondition list \<Rightarrow> PodConditionType \<Rightarrow> int \<times> PodCondition option" where
  "getPodCondition_from i [] conditionType = (- 1, None)"
| "getPodCondition_from i (c # cs) conditionType =
     (if pc_Type c = conditionType then (i, Some c)
      else getPodCondition_from (i + 1) cs conditionType)"

definition getPodCondition :: "Pod \<Rightarrow> PodConditionType \<Rightarrow> int \<times> PodCondition option" where
  "getPodCondition pod conditionType = getPodCondition_from 0 (pod_Conditions pod) conditionType"

definition toleratedAsReady :: "Duration \<Rightarrow> Pod \<Rightarrow> bool" where
  "toleratedAsReady readinessDelay pod =
     (case (snd (getPodCondition pod PodReady), pod_StartTime pod) of
        (Some condition, Some startTime) \<Rightarrow>
          pod_Phase pod = PodRunning \<and> pc_Status condition = ConditionTrue \<or>
          pod_Phase pod = PodPending \<and> pc_LastTransitionTime condition - startTime < readinessDelay
      | _ \<Rightarrow> False)"

definition getReadyPodsCount ::
  "runtime \<Rightarrow> ReplicaCalculator \<Rightarrow> string \<Rightarrow> string option \<Rightarrow> Duration \<Rightarrow> int result" where
  "getReadyPodsCount rt c namespace selector readinessDelay =
     (case podLister_List c namespace selector of
        Inl err \<Rightarrow> Err (''unable to get pods while calculating replica count: '' @ err)
      | Inr podList \<Rightarrow>
          if length podList = 0 then
            Err ''no pods returned by selector while calculating replica count''
          else
            let toleratedAsReadyPodCount = length (filter (toleratedAsReady readinessDelay) podList)
            in if toleratedAsReadyPodCount = 0 then
                 Err (''among the '' @ fmt_d (int (length podList)) @
                      '' pods, none is ready. Skipping recommendation'')
               else Ok (wrap32 (int toleratedAsReadyPodCount)))"

text \<open>\<^verbatim>\<open>groupPods\<close>: the loop body is \<open>groupPod\<close>, on the pair of the ready and the ignored set.\<close>

definition groupPod ::
  "PodMetricsInfo \<Rightarrow> string \<Rightarrow> Duration \<Rightarrow> string list \<times> string list \<Rightarrow> Pod \<Rightarrow>
   string list \<times> string list" where
  "groupPod metrics resource delayOfInitialReadinessStatus acc pod =
     (let readyPods = fst acc; ignoredPods = snd acc in
      if pod_Phase pod = PodFailed then (readyPods, List.insert (pod_Name pod) ignoredPods)
      else if pod_Phase pod = PodPending then (readyPods, List.insert (pod_Name pod) ignoredPods)
      else if map_of metrics (pod_Name pod) = None then (readyPods, ignoredPods)
      else if resource = ResourceCPU \<and>
              (case (snd (getPodCondition pod PodReady), pod_StartTime pod) of
                 (Some condition, Some startTime) \<Rightarrow>
                   pc_Status condition = ConditionFalse \<and>
                   pc_LastTransitionTime condition < startTime + delayOfInitialReadinessStatus
               | _ \<Rightarrow> True)
           then (readyPods, List.insert (pod_Name pod) ignoredPods)
      else (List.insert (pod_Name pod) readyPods, ignoredPods))"

definition groupPods ::
  "Pod list \<Rightarrow> PodMetricsInfo \<Rightarrow> string \<Rightarrow> Duration \<Rightarrow> string list \<times> string list" where
  "groupPods podList metrics resource delayOfInitialReadinessStatus =
     foldl (groupPod metrics resource delayOfInitialReadinessStatus) ([], []) podList"

definition removeMetricsForPods :: "PodMetricsInfo \<Rightarrow> string list \<Rightarrow> PodMetricsInfo" where
  "removeMetricsForPods metrics pods = filter (\<lambda>kv. fst kv \<notin> set pods) metrics"

definition sum_int64 :: "int list \<Rightarrow> int" where
  "sum_int64 vals = foldl (\<lambda>sum val. wrap64 (sum + val)) 0 vals"

definition evaluateWatermarks ::
  "runtime \<Rightarrow> int \<Rightarrow> WatermarkPodAutoscaler \<Rightarrow> float64 \<Rightarrow> int option \<Rightarrow> int option \<Rightarrow> time \<Rightarrow>
   ReplicaCalculation result" where
  \<comment> \<open>the call of \<^verbatim>\<open>getReplicaCount\<close>, which dereferences both watermarks\<close>
  "evaluateWatermarks rt currentReplicas wpa adjustedUsage lowMark highMark ts =
     (case (lowMark, highMark) of
        (Some l, Some h) \<Rightarrow>
          (let rc = getReplicaCount rt currentReplicas wpa adjustedUsage l h
           in Ok \<lparr>replicaCount = fst rc, utilization = snd rc, timestamp = ts\<rparr>)
      | _ \<Rightarrow> Panic)"

text \<open>
  \<^verbatim>\<open>GetExternalMetricReplicas\<close>, in two steps: \<open>externalUsage\<close> is the function up to the
  assignment of \<^verbatim>\<open>adjustedUsage\<close>, with the count of ready pods and the timestamp of the
  samples.
\<close>

definition externalUsage ::
  "runtime \<Rightarrow> ReplicaCalculator \<Rightarrow> Scale \<Rightarrow> MetricSpec \<Rightarrow> WatermarkPodAutoscaler \<Rightarrow>
   (int \<times> float64 \<times> time) result" where
  "externalUsage rt c target metric wpa =
     (let lbl = (case labels_Parse rt (scale_Status_Selector target) of
                   Inl err \<Rightarrow> None | Inr l \<Rightarrow> Some l)
      in case getReadyPodsCount rt c NamespaceAll lbl
                (ReadinessDelaySeconds (Spec wpa) * Second) of
           Err err \<Rightarrow>
             Err (''unable to get the number of ready pods across all namespaces for '' @
                  fmt_v_Selector rt lbl @ '': '' @ err)
         | Panic \<Rightarrow> Panic
         | Ok currentReadyReplicas \<Rightarrow>
             (let averaged = (if Algorithm (Spec wpa) = ''average''
                              then float64_of_int currentReadyReplicas else Fin 1)
              in case ms_External metric of
                   None \<Rightarrow> Panic
                 | Some ext \<Rightarrow>
                     (case LabelSelectorAsSelector rt (ext_MetricSelector ext) of
                        Inl err \<Rightarrow> Err err
                      | Inr labelSelector \<Rightarrow>
                          (case metricsClient_GetExternalMetric c (ext_MetricName ext)
                                  (wpa_Namespace wpa) labelSelector of
                             Inl err \<Rightarrow>
                               Err (''unable to get external metric '' @ wpa_Namespace wpa @ ''/'' @
                                    ext_MetricName ext @ ''/'' @
                                    fmt_v_LabelSelector rt (ext_MetricSelector ext) @ '': '' @ err)
                           | Inr (metrics, ts) \<Rightarrow>
                               (let sum = sum_int64 metrics
                                in Ok (currentReadyReplicas,
                                       fdiv (float64_of_int sum) averaged, ts))))))"

definition GetExternalMetricReplicas ::
  "runtime \<Rightarrow> ReplicaCalculator \<Rightarrow> Scale \<Rightarrow> MetricSpec \<Rightarrow> WatermarkPodAutoscaler \<Rightarrow>
   ReplicaCalculation result" where
  "GetExternalMetricReplicas rt c target metric wpa =
     (case externalUsage rt c target metric wpa of
        Err err \<Rightarrow> Err err
      | Panic \<Rightarrow> Panic
      | Ok (currentReadyReplicas, adjustedUsage, ts) \<Rightarrow>
          (case ms_External metric of
             None \<Rightarrow> Panic
           | Some ext \<Rightarrow>
               evaluateWatermarks rt currentReadyReplicas wpa adjustedUsage
                 (ext_LowWatermark ext) (ext_HighWatermark ext) ts))"

text \<open>
  \<^verbatim>\<open>GetResourceReplicas\<close>, in two steps: \<open>resourceUsage\<close> is the function up to the
  assignment of \<^verbatim>\<open>adjustedUsage\<close>, with the timestamp of the samples.
\<close>

definition resourceUsage ::
  "runtime \<Rightarrow> ReplicaCalculator \<Rightarrow> Scale \<Rightarrow> ResourceMetricSource \<Rightarrow> WatermarkPodAutoscaler \<Rightarrow>
   (float64 \<times> time) result" where
  "resourceUsage rt c target res wpa =
     (case LabelSelectorAsSelector rt (res_MetricSelector res) of
        Inl err \<Rightarrow> Err err
      | Inr labelSelector \<Rightarrow>
          (case metricsClient_GetResourceMetric c (res_Name res) (wpa_Namespace wpa) labelSelector of
             Inl err \<Rightarrow>
               Err (''unable to get resource metric '' @ wpa_Namespace wpa @ ''/'' @ res_Name res @
                    ''/'' @ fmt_v_LabelSelector rt (res_MetricSelector res) @ '': '' @ err)
           | Inr (metrics, ts) \<Rightarrow>
               (case labels_Parse rt (scale_Status_Selector target) of
                  Inl err \<Rightarrow> Err (''could not parse the labels of the target: '' @ err)
                | Inr lbl \<Rightarrow>
                    (case podLister_List c (wpa_Namespace wpa) (Some lbl) of
                       Inl err \<Rightarrow>
                         Err (''unable to get pods while calculating replica count: '' @ err)
                     | Inr podList \<Rightarrow>
                         if length podList = 0 then
                           Err ''no pods returned by selector while calculating replica count''
                         else
                           (let grouped = groupPods podList metrics (res_Name res)
                                            (ReadinessDelaySeconds (Spec wpa) * Second);
                                readyPodCount = length (fst grouped);
                                metrics' = removeMetricsForPods metrics (snd grouped)
                            in if length metrics' = 0 then
                                 Err ''did not receive metrics for any ready pods''
                               else
                                 (let averaged = (if Algorithm (Spec wpa) = ''average''
                                                  then float64_of_int (int readyPodCount)
                                                  else Fin 1);
                                      sum = sum_int64 (map snd metrics')
                                  in Ok (fdiv (float64_of_int sum) averaged, ts)))))))"

definition GetResourceReplicas ::
  "runtime \<Rightarrow> ReplicaCalculator \<Rightarrow> Scale \<Rightarrow> MetricSpec \<Rightarrow> WatermarkPodAutoscaler \<Rightarrow>
   ReplicaCalculation result" where
  "GetResourceReplicas rt c target metric wpa =
     (case ms_Resource metric of
        None \<Rightarrow> Panic
      | Some res \<Rightarrow>
          (case resourceUsage rt c target res wpa of
             Err err \<Rightarrow> Err err
           | Panic \<Rightarrow> Panic
           | Ok (adjustedUsage, ts) \<Rightarrow>
               evaluateWatermarks rt (scale_Status_Replicas target) wpa adjustedUsage
                 (res_LowWatermark res) (res_HighWatermark res) ts))"

section \<open>The controller\<close>

record ReplicaCalculatorItf =
  itf_GetExternalMetricReplicas ::
    "Scale \<Rightarrow> MetricSpec \<Rightarrow> WatermarkPodAutoscaler \<Rightarrow> ReplicaCalculation result"
  itf_GetResourceReplicas ::
    "Scale \<Rightarrow> MetricSpec \<Rightarrow> WatermarkPodAutoscaler \<Rightarrow> ReplicaCalculation result"

definition NewReplicaCalculator :: "runtime \<Rightarrow> ReplicaCalculator \<Rightarrow> ReplicaCalculatorItf" where
  "NewReplicaCalculator rt c =
     \<lparr>itf_GetExternalMetricReplicas = GetExternalMetricReplicas rt c,
      itf_GetResourceReplicas = GetResourceReplicas rt c\<rparr>"

record RESTMapping =
  mapping_GroupResource :: string
  mapping_GroupVersion :: string

text \<open>
  The reconciler and its clients. \<open>scaleClient_Get\<close> returns the pair of Go: a scale or
  nil, and an error or nil. \<open>ConditionReasonSucceededRescale\<close> is a constant of the API
  package of the repository.
\<close>

record ReconcileWatermarkPodAutoscaler =
  restMapper_RESTMappings :: "string \<times> string \<Rightarrow> string + RESTMapping list"
  scaleClient_Get :: "string \<Rightarrow> string \<Rightarrow> string \<Rightarrow> Scale option \<times> string option"
  scaleClient_Update :: "string \<Rightarrow> string \<Rightarrow> Scale \<Rightarrow> string option"
  client_Status_Update :: "WatermarkPodAutoscaler \<Rightarrow> string option"
  replicaCalc :: ReplicaCalculatorItf
  ConditionReasonSucceededRescale :: string

subsection \<open>Conditions and status\<close>

primrec setConditionInList ::
  "time \<Rightarrow> Condition list \<Rightarrow> ConditionType \<Rightarrow> ConditionStatus \<Rightarrow> string \<Rightarrow> string \<Rightarrow>
   Condition list" where
  "setConditionInList now [] conditionType status reason message =
     [\<lparr>cond_Type = conditionType, cond_Status = status,
       cond_LastTransitionTime = (if ConditionUnset \<noteq> status then now else zero_Time),
       cond_Reason = reason, cond_Message = message\<rparr>]"
| "setConditionInList now (c # cs) conditionType status reason message =
     (if cond_Type c = conditionType then
        c\<lparr>cond_LastTransitionTime :=
             (if cond_Status c \<noteq> status then now else cond_LastTransitionTime c),
          cond_Status := status, cond_Reason := reason, cond_Message := message\<rparr> # cs
      else c # setConditionInList now cs conditionType status reason message)"

definition setCondition ::
  "runtime \<Rightarrow> WatermarkPodAutoscaler \<Rightarrow> ConditionType \<Rightarrow> ConditionStatus \<Rightarrow> string \<Rightarrow> string \<Rightarrow>
   WatermarkPodAutoscaler" where
  "setCondition rt wpa conditionType status reason message =
     wpa\<lparr>Status := (Status wpa)\<lparr>Conditions :=
       setConditionInList (time_Now rt) (Conditions (Status wpa)) conditionType status reason
         message\<rparr>\<rparr>"

definition setStatus ::
  "runtime \<Rightarrow> WatermarkPodAutoscaler \<Rightarrow> int \<Rightarrow> int \<Rightarrow> MetricStatus list \<Rightarrow> bool \<Rightarrow>
   WatermarkPodAutoscaler" where
  "setStatus rt wpa currentReplicas desiredReplicas metricStatuses rescale =
     wpa\<lparr>Status :=
       \<lparr>CurrentReplicas = currentReplicas,
        DesiredReplicas = desiredReplicas,
        CurrentMetrics = metricStatuses,
        LastScaleTime = (if rescale then Some (time_Now rt) else LastScaleTime (Status wpa)),
        Conditions = Conditions (Status wpa)\<rparr>\<rparr>"

definition setCurrentReplicasInStatus ::
  "runtime \<Rightarrow> WatermarkPodAutoscaler \<Rightarrow> int \<Rightarrow> WatermarkPodAutoscaler" where
  "setCurrentReplicasInStatus rt wpa currentReplicas =
     setStatus rt wpa currentReplicas (DesiredReplicas (Status wpa))
       (CurrentMetrics (Status wpa)) False"

text \<open>
  \<^verbatim>\<open>updateStatusIfNeeded\<close> returns the error of the status update, and the model adds the
  status that it sent, if it sent one.
\<close>

definition updateStatusIfNeeded ::
  "ReconcileWatermarkPodAutoscaler \<Rightarrow> WatermarkPodAutoscalerStatus \<Rightarrow> WatermarkPodAutoscaler \<Rightarrow>
   string option \<times> WatermarkPodAutoscalerStatus option" where
  "updateStatusIfNeeded r wpaStatus wpa =
     (if wpaStatus = Status wpa then (None, None)
      else (client_Status_Update r wpa, Some (Status wpa)))"

subsection \<open>The cooldown gate\<close>

definition canScale :: "bool \<Rightarrow> bool \<Rightarrow> int \<Rightarrow> int \<Rightarrow> bool" where
  "canScale backoffUp backoffDown currentReplicas desiredReplicas =
     (if desiredReplicas = currentReplicas then False
      else \<not> backoffUp \<and> desiredReplicas > currentReplicas \<or>
           \<not> backoffDown \<and> desiredReplicas < currentReplicas)"

definition shouldScale ::
  "runtime \<Rightarrow> WatermarkPodAutoscaler \<Rightarrow> int \<Rightarrow> int \<Rightarrow> time \<Rightarrow> bool \<times> WatermarkPodAutoscaler" where
  "shouldScale rt wpa currentReplicas desiredReplicas ts =
     (case LastScaleTime (Status wpa) of
        None \<Rightarrow> (True, wpa)
      | Some lastScaleTime \<Rightarrow>
          (let downscaleForbiddenWindow = DownscaleForbiddenWindowSeconds (Spec wpa) * Second;
               downscaleCountdown =
                 Duration_Seconds (lastScaleTime + downscaleForbiddenWindow - ts);
               backoffDown = fgt downscaleCountdown (Fin 0);
               wpa1 = (if backoffDown then
                         setCondition rt wpa AbleToScale ConditionFalse ''BackoffDownscale''
                           ''the time since the previous scale is still within the downscale forbidden window''
                       else wpa);
               upscaleForbiddenWindow = UpscaleForbiddenWindowSeconds (Spec wpa) * Second;
               upscaleCountdown =
                 Duration_Seconds (lastScaleTime + upscaleForbiddenWindow - ts);
               backoffUp = fgt upscaleCountdown (Fin 0);
               wpa2 = (if backoffUp then
                         (if backoffDown then
                            setCondition rt wpa1 AbleToScale ConditionFalse ''BackoffBoth''
                              ''the time since the previous scale is still within both the downscale and upscale forbidden windows''
                          else
                            setCondition rt wpa1 AbleToScale ConditionFalse ''BackoffUpscale''
                              ''the time since the previous scale is still within the upscale forbidden window'')
                       else wpa1)
           in (canScale backoffUp backoffDown currentReplicas desiredReplicas, wpa2)))"

subsection \<open>The normalizer\<close>

definition calculateScaleUpLimit :: "runtime \<Rightarrow> WatermarkPodAutoscaler \<Rightarrow> int \<Rightarrow> int" where
  "calculateScaleUpLimit rt wpa currentReplicas =
     to_int32 rt (fadd (float64_of_int currentReplicas)
       (math_Max (Fin 1)
          (math_Floor (fmul (fdiv (ScaleUpLimitFactor (Spec wpa)) (Fin 100))
                            (float64_of_int currentReplicas)))))"

definition calculateScaleDownLimit :: "runtime \<Rightarrow> WatermarkPodAutoscaler \<Rightarrow> int \<Rightarrow> int" where
  "calculateScaleDownLimit rt wpa currentReplicas =
     to_int32 rt (fsub (float64_of_int currentReplicas)
       (math_Max (Fin 1)
          (math_Floor (fmul (fdiv (ScaleDownLimitFactor (Spec wpa)) (Fin 100))
                            (float64_of_int currentReplicas)))))"

definition convertDesiredReplicasWithRules ::
  "runtime \<Rightarrow> WatermarkPodAutoscaler \<Rightarrow> int \<Rightarrow> int \<Rightarrow> int \<Rightarrow> int \<Rightarrow> int \<times> string \<times> string" where
  "convertDesiredReplicasWithRules rt wpa currentReplicas desiredReplicas wpaMinReplicas
       wpaMaxReplicas =
     (let scaleDownLimit = calculateScaleDownLimit rt wpa currentReplicas;
          lower =
            (if wpaMinReplicas = 0 then (1, [], [])
             else if desiredReplicas < scaleDownLimit then
               (to_int32 rt (math_Max (float64_of_int scaleDownLimit)
                                      (float64_of_int wpaMinReplicas)),
                ''ScaleDownLimit'',
                ''the desired replica count is decreasing faster than the maximum scale rate'')
             else
               (wpaMinReplicas, ''TooFewReplicas'',
                ''the desired replica count is below the minimum replica count''));
          minimumAllowedReplicas = fst lower
      in if desiredReplicas < minimumAllowedReplicas then lower
         else
           (let scaleUpLimit = calculateScaleUpLimit rt wpa currentReplicas;
                upper =
                  (if desiredReplicas > scaleUpLimit then
                     (to_int32 rt (math_Min (float64_of_int scaleUpLimit)
                                            (float64_of_int wpaMaxReplicas)),
                      ''ScaleUpLimit'',
                      ''the desired replica count is increasing faster than the maximum scale rate'')
                   else
                     (wpaMaxReplicas, ''TooManyReplicas'',
                      ''the desired replica count is above the maximum replica count''));
                maximumAllowedReplicas = fst upper
            in if desiredReplicas > maximumAllowedReplicas then upper
               else (desiredReplicas, ''DesiredWithinRange'',
                     ''the desired count is within the acceptable range'')))"

definition normalizeDesiredReplicas ::
  "runtime \<Rightarrow> WatermarkPodAutoscaler \<Rightarrow> int \<Rightarrow> int \<Rightarrow> int \<times> WatermarkPodAutoscaler" where
  "normalizeDesiredReplicas rt wpa currentReplicas prenormalizedDesiredReplicas =
     (let minReplicas = (case MinReplicas (Spec wpa) of Some m \<Rightarrow> m | None \<Rightarrow> 0);
          conv = convertDesiredReplicasWithRules rt wpa currentReplicas
                   prenormalizedDesiredReplicas minReplicas (MaxReplicas (Spec wpa));
          desiredReplicas = fst conv
      in (desiredReplicas,
          setCondition rt wpa ScalingLimited
            (if desiredReplicas = prenormalizedDesiredReplicas then ConditionFalse
             else ConditionTrue)
            (fst (snd conv)) (snd (snd conv))))"

subsection \<open>Fetching the scale\<close>

text \<open>
  \<^verbatim>\<open>utilerrors.NewAggregate\<close> of the Kubernetes library: nil for no error, and otherwise
  an error whose text is the single message, or the messages in brackets, separated by
  commas. (Later versions of the library print a repeated message once; every message
  still occurs in the text.)
\<close>

definition Aggregate_Error :: "string list \<Rightarrow> string" where
  "Aggregate_Error errs =
     (case errs of
        [] \<Rightarrow> []
      | [e] \<Rightarrow> e
      | e # es \<Rightarrow> ''['' @ e @ concat (map (\<lambda>m. '', '' @ m) es) @ '']'')"

definition NewAggregate :: "string list \<Rightarrow> string option" where
  "NewAggregate errs = (if errs = [] then None else Some (Aggregate_Error errs))"

fun getScale_loop ::
  "ReconcileWatermarkPodAutoscaler \<Rightarrow> string \<Rightarrow> string \<Rightarrow> RESTMapping list \<Rightarrow>
   string list \<times> Scale option \<times> string \<Rightarrow> string list \<times> Scale option \<times> string" where
  "getScale_loop r namespace name [] acc = acc"
| "getScale_loop r namespace name (mapping # mappings) (errs, scale, targetGR) =
     (let targetGR' = mapping_GroupResource mapping;
          got = scaleClient_Get r namespace targetGR' name
      in case snd got of
           None \<Rightarrow> (errs, fst got, targetGR')
         | Some err \<Rightarrow>
             getScale_loop r namespace name mappings
               (errs @ [''could not get scale for the GV '' @ mapping_GroupVersion mapping @
                        '', error: '' @ err],
                fst got, targetGR'))"

definition getScaleForResourceMappings ::
  "ReconcileWatermarkPodAutoscaler \<Rightarrow> string \<Rightarrow> string \<Rightarrow> RESTMapping list \<Rightarrow>
   Scale option \<times> string \<times> string option" where
  "getScaleForResourceMappings r namespace name mappings =
     (case getScale_loop r namespace name mappings ([], None, []) of
        (errs, scale, targetGR) \<Rightarrow>
          (scale, targetGR,
           NewAggregate (if scale = None then errs @ [''scale not found''] else errs)))"

subsection \<open>The metric aggregator\<close>

text \<open>
  \<open>metricProposal\<close> is the body of the loop of \<^verbatim>\<open>computeReplicasForMetrics\<close> up to the
  proposal of one metric spec: \<open>Ok None\<close> is the \<^verbatim>\<open>continue\<close> of a spec with neither
  source, and otherwise the proposal comes with its metric name and its status entry.
\<close>

definition metricProposal ::
  "ReconcileWatermarkPodAutoscaler \<Rightarrow> runtime \<Rightarrow> WatermarkPodAutoscaler \<Rightarrow> Scale \<Rightarrow> MetricSpec \<Rightarrow>
   WatermarkPodAutoscaler \<times> (ReplicaCalculation \<times> string \<times> MetricStatus) option result" where
  "metricProposal r rt wpa scale metricSpec =
     (if ms_External metricSpec = None \<and> ms_Resource metricSpec = None then (wpa, Ok None)
      else case ms_Type metricSpec of
        ExternalMetricSourceType \<Rightarrow>
          (case ms_External metricSpec of
             None \<Rightarrow> (wpa, Panic)
           | Some ext \<Rightarrow>
               if ext_HighWatermark ext \<noteq> None \<and> ext_LowWatermark ext \<noteq> None then
                 (case ext_MetricSelector ext of
                    None \<Rightarrow> (wpa, Panic)
                  | Some sel \<Rightarrow>
                      (let metricNameProposal =
                             ext_MetricName ext @ ''{'' @ fmt_v_MatchLabels rt sel @ ''}''
                       in case itf_GetExternalMetricReplicas (replicaCalc r) scale metricSpec wpa of
                            Err errMetricsServer \<Rightarrow>
                              (setCondition rt wpa ScalingActive ConditionFalse
                                 ''FailedGetExternalMetric''
                                 (''the HPA was unable to compute the replica count: '' @
                                  errMetricsServer),
                               Err (''failed to get external metric '' @ ext_MetricName ext @
                                    '': '' @ errMetricsServer))
                          | Panic \<Rightarrow> (wpa, Panic)
                          | Ok replicaCalculation \<Rightarrow>
                              (wpa, Ok (Some (replicaCalculation, metricNameProposal,
                                 ExternalMetricStatus (ext_MetricSelector ext) (ext_MetricName ext)
                                   (utilization replicaCalculation))))))
               else
                 (setCondition rt wpa ScalingActive ConditionFalse ''FailedGetExternalMetric''
                    ''the WPA was unable to compute the replica count: <nil>'',
                  Err ''invalid external metric source: the high watermark and the low watermark are required''))
      | ResourceMetricSourceType \<Rightarrow>
          (case ms_Resource metricSpec of
             None \<Rightarrow> (wpa, Panic)
           | Some res \<Rightarrow>
               if res_HighWatermark res \<noteq> None \<and> res_LowWatermark res \<noteq> None then
                 (case res_MetricSelector res of
                    None \<Rightarrow> (wpa, Panic)
                  | Some sel \<Rightarrow>
                      (let metricNameProposal =
                             res_Name res @ ''{'' @ fmt_v_MatchLabels rt sel @ ''}''
                       in case itf_GetResourceReplicas (replicaCalc r) scale metricSpec wpa of
                            Err errMetricsServer \<Rightarrow>
                              (setCondition rt wpa ScalingActive ConditionFalse
                                 ''FailedGetResourceMetric''
                                 (''the WPA was unable to compute the replica count: '' @
                                  errMetricsServer),
                               Err (''failed to get resource metric '' @ res_Name res @ '': '' @
                                    errMetricsServer))
                          | Panic \<Rightarrow> (wpa, Panic)
                          | Ok replicaCalculation \<Rightarrow>
                              (wpa, Ok (Some (replicaCalculation, metricNameProposal,
                                 ResourceMetricStatus (res_Name res)
                                   (utilization replicaCalculation))))))
               else
                 (setCondition rt wpa ScalingActive ConditionFalse ''FailedGetResourceMetric''
                    ''the WPA was unable to compute the replica count: <nil>'',
                  Err ''invalid resource metric source: the high watermark and the low watermark are required''))
      | OtherMetricSourceType ty \<Rightarrow>
          (wpa, Err (''metricSpec.Type:'' @ ty @ '' not supported'')))"

fun computeReplicasForMetrics_loop ::
  "ReconcileWatermarkPodAutoscaler \<Rightarrow> runtime \<Rightarrow> Scale \<Rightarrow> nat \<Rightarrow> MetricSpec list \<Rightarrow>
   WatermarkPodAutoscaler \<Rightarrow> int \<times> string \<times> MetricStatus list \<times> time \<Rightarrow>
   WatermarkPodAutoscaler \<times> (int \<times> string \<times> MetricStatus list \<times> time) result" where
  "computeReplicasForMetrics_loop r rt scale i [] wpa acc = (wpa, Ok acc)"
| "computeReplicasForMetrics_loop r rt scale i (metricSpec # rest) wpa
       (replicas, metric, statuses, ts) =
     (case metricProposal r rt wpa scale metricSpec of
        (wpa', Err err) \<Rightarrow> (wpa', Err err)
      | (wpa', Panic) \<Rightarrow> (wpa', Panic)
      | (wpa', Ok None) \<Rightarrow>
          computeReplicasForMetrics_loop r rt scale (i + 1) rest wpa'
            (replicas, metric, statuses, ts)
      | (wpa', Ok (Some (replicaCalculation, metricNameProposal, status))) \<Rightarrow>
          (if replicas = 0 \<or> replicaCount replicaCalculation > replicas then
             computeReplicasForMetrics_loop r rt scale (i + 1) rest wpa'
               (replicaCount replicaCalculation, metricNameProposal, statuses[i := status],
                timestamp replicaCalculation)
           else
             computeReplicasForMetrics_loop r rt scale (i + 1) rest wpa'
               (replicas, metric, statuses[i := status], ts)))"

definition computeReplicasForMetrics ::
  "ReconcileWatermarkPodAutoscaler \<Rightarrow> runtime \<Rightarrow> WatermarkPodAutoscaler \<Rightarrow> Scale \<Rightarrow>
   WatermarkPodAutoscaler \<times> (int \<times> string \<times> MetricStatus list \<times> time) result" where
  "computeReplicasForMetrics r rt wpa scale =
     (case computeReplicasForMetrics_loop r rt scale 0 (Metrics (Spec wpa)) wpa
             (0, [], replicate (length (Metrics (Spec wpa))) NoMetricStatus, zero_Time) of
        (wpa', Ok (replicas, metric, statuses, ts)) \<Rightarrow>
          (setCondition rt wpa' ScalingActive ConditionTrue ''ValidMetricFound''
             (''the HPA was able to successfully calculate a replica count from '' @ metric),
           Ok (replicas, metric, statuses, ts))
      | (wpa', Err err) \<Rightarrow> (wpa', Err err)
      | (wpa', Panic) \<Rightarrow> (wpa', Panic))"

subsection \<open>The reconciliation\<close>

text \<open>
  What one call of \<^verbatim>\<open>reconcileWPA\<close> does: the error it returns, whether it panicked (the
  deferred \<^verbatim>\<open>recover\<close> then makes it return nil), the autoscaler object after the call,
  the value of \<^verbatim>\<open>rescale\<close> if the call reached \<^verbatim>\<open>if rescale\<close>, the scale it passed to
  the \<^verbatim>\<open>Update\<close> of the scale client with the error of that call, and the status it
  passed to the status update with the error of that call.
\<close>

record outcome =
  out_err :: "string option"
  out_panicked :: bool
  out_wpa :: WatermarkPodAutoscaler
  out_rescale :: bool
  out_scale_update :: "(Scale \<times> string option) option"
  out_status_update :: "(WatermarkPodAutoscalerStatus \<times> string option) option"

definition returns :: "string option \<Rightarrow> WatermarkPodAutoscaler \<Rightarrow> outcome" where
  "returns err wpa =
     \<lparr>out_err = err, out_panicked = False, out_wpa = wpa, out_rescale = False,
      out_scale_update = None, out_status_update = None\<rparr>"

definition panics :: "WatermarkPodAutoscaler \<Rightarrow> outcome" where
  "panics wpa =
     \<lparr>out_err = None, out_panicked = True, out_wpa = wpa, out_rescale = False,
      out_scale_update = None, out_status_update = None\<rparr>"

definition finish ::
  "ReconcileWatermarkPodAutoscaler \<Rightarrow> WatermarkPodAutoscalerStatus \<Rightarrow> WatermarkPodAutoscaler \<Rightarrow>
   bool \<Rightarrow> (Scale \<times> string option) option \<Rightarrow> outcome" where
  \<comment> \<open>\<^verbatim>\<open>return r.updateStatusIfNeeded(wpaStatusOriginal, wpa)\<close>\<close>
  "finish r wpaStatusOriginal wpa rescale scaleUpdate =
     (let upd = updateStatusIfNeeded r wpaStatusOriginal wpa
      in \<lparr>out_err = fst upd, out_panicked = False, out_wpa = wpa, out_rescale = rescale,
          out_scale_update = scaleUpdate,
          out_status_update = map_option (\<lambda>s. (s, fst upd)) (snd upd)\<rparr>)"

text \<open>\<open>enact\<close> is \<^verbatim>\<open>reconcileWPA\<close> from \<^verbatim>\<open>if rescale\<close> to its end.\<close>

definition enact ::
  "ReconcileWatermarkPodAutoscaler \<Rightarrow> runtime \<Rightarrow> WatermarkPodAutoscalerStatus \<Rightarrow>
   WatermarkPodAutoscaler \<Rightarrow> Scale \<Rightarrow> string \<Rightarrow> int \<Rightarrow> int \<Rightarrow> MetricStatus list \<Rightarrow> bool \<Rightarrow> outcome" where
  "enact r rt wpaStatusOriginal wpa currentScale targetGR currentReplicas desiredReplicas
       metricStatuses rescale =
     (if rescale then
        (let wpa1 = setCondition rt wpa AbleToScale ConditionTrue ''ReadyForScale''
                      ''the last scaling time was sufficiently old as to warrant a new scale''
         in if DryRun (Spec wpa1) then
              finish r wpaStatusOriginal
                (setStatus rt wpa1 currentReplicas desiredReplicas metricStatuses rescale)
                rescale None
            else
              (let newScale = currentScale\<lparr>scale_Spec_Replicas := desiredReplicas\<rparr>
               in case scaleClient_Update r (wpa_Namespace wpa1) targetGR newScale of
                    Some err \<Rightarrow>
                      (let wpa2 = setCondition rt wpa1 AbleToScale ConditionFalse
                                    ''FailedUpdateScale''
                                    (''the HPA controller was unable to update the target scale: '' @ err);
                           wpa3 = setCurrentReplicasInStatus rt wpa2 currentReplicas;
                           upd = updateStatusIfNeeded r wpaStatusOriginal wpa3
                       in \<lparr>out_err = None, out_panicked = False,
                           out_wpa =
                             (case fst upd of
                                Some err2 \<Rightarrow>
                                  setCondition rt wpa3 AbleToScale ConditionFalse
                                    ''FailedUpdateReplicas''
                                    (''the WPA controller was unable to update the number of replicas: '' @ err2)
                              | None \<Rightarrow> wpa3),
                           out_rescale = rescale,
                           out_scale_update = Some (newScale, Some err),
                           out_status_update = map_option (\<lambda>s. (s, fst upd)) (snd upd)\<rparr>)
                  | None \<Rightarrow>
                      (let wpa2 = setCondition rt wpa1 AbleToScale ConditionTrue
                                    (ConditionReasonSucceededRescale r)
                                    (''the HPA controller was able to update the target scale to '' @
                                     fmt_d desiredReplicas)
                       in finish r wpaStatusOriginal
                            (setStatus rt wpa2 currentReplicas desiredReplicas metricStatuses
                               rescale)
                            rescale (Some (newScale, None)))))
      else
        finish r wpaStatusOriginal
          (setStatus rt wpa currentReplicas currentReplicas metricStatuses rescale)
          rescale None)"

text \<open>
  \<open>reconcileMetrics\<close> is the default case of the switch of \<^verbatim>\<open>reconcileWPA\<close>, followed by
  the enactment.
\<close>

definition reconcileMetrics ::
  "ReconcileWatermarkPodAutoscaler \<Rightarrow> runtime \<Rightarrow> WatermarkPodAutoscalerStatus \<Rightarrow>
   WatermarkPodAutoscaler \<Rightarrow> Scale \<Rightarrow> string \<Rightarrow> outcome" where
  "reconcileMetrics r rt wpaStatusOriginal wpa currentScale targetGR =
     (let currentReplicas = scale_Status_Replicas currentScale
      in case computeReplicasForMetrics r rt wpa currentScale of
           (wpa2, Err err) \<Rightarrow>
             (let wpa3 = setCurrentReplicasInStatus rt wpa2 currentReplicas;
                  upd = updateStatusIfNeeded r wpaStatusOriginal wpa3
              in \<lparr>out_err = None, out_panicked = False,
                  out_wpa =
                    (case fst upd of
                       Some err2 \<Rightarrow>
                         setCondition rt wpa3 AbleToScale ConditionFalse
                           ''FailedUpdateReplicas''
                           (''the WPA controller was unable to update the number of replicas: '' @ err)
                     | None \<Rightarrow> wpa3),
                  out_rescale = False,
                  out_scale_update = None,
                  out_status_update = map_option (\<lambda>s. (s, fst upd)) (snd upd)\<rparr>)
         | (wpa2, Panic) \<Rightarrow> panics wpa2
         | (wpa2, Ok (proposedReplicas, metricName, metricStatuses, metricTimestamp)) \<Rightarrow>
             (let desiredReplicas = (if proposedReplicas > 0 then proposedReplicas else 0);
                  now = (if proposedReplicas > 0 then metricTimestamp else time_Now rt);
                  norm = normalizeDesiredReplicas rt wpa2 currentReplicas desiredReplicas;
                  gate = shouldScale rt (snd norm) currentReplicas (fst norm) now
              in enact r rt wpaStatusOriginal (snd gate) currentScale targetGR
                   currentReplicas (fst norm) metricStatuses (fst gate)))"

text \<open>\<open>reconcileScale\<close> is \<^verbatim>\<open>reconcileWPA\<close> from the read of the current replicas on.\<close>

definition reconcileScale ::
  "ReconcileWatermarkPodAutoscaler \<Rightarrow> runtime \<Rightarrow> WatermarkPodAutoscaler \<Rightarrow> Scale \<Rightarrow> string \<Rightarrow>
   outcome" where
  "reconcileScale r rt wpa currentScale targetGR =
     (let currentReplicas = scale_Status_Replicas currentScale;
          wpaStatusOriginal = Status wpa;
          wpa1 = setCondition rt wpa AbleToScale ConditionTrue ''SucceededGetScale''
                   ''the WPA controller was able to get the target's current scale'';
          metricStatuses = CurrentMetrics wpaStatusOriginal
      in if scale_Spec_Replicas currentScale = 0 then
           enact r rt wpaStatusOriginal
             (setCondition rt wpa1 ScalingActive ConditionFalse ''ScalingDisabled''
                ''scaling is disabled since the replica count of the target is zero'')
             currentScale targetGR currentReplicas 0 metricStatuses False
         else if currentReplicas > MaxReplicas (Spec wpa1) then
           enact r rt wpaStatusOriginal wpa1 currentScale targetGR currentReplicas
             (MaxReplicas (Spec wpa1)) metricStatuses True
         else if MinReplicas (Spec wpa1) \<noteq> None \<and>
                 currentReplicas < the (MinReplicas (Spec wpa1)) then
           enact r rt wpaStatusOriginal wpa1 currentScale targetGR currentReplicas
             (the (MinReplicas (Spec wpa1))) metricStatuses True
         else if currentReplicas = 0 then
           enact r rt wpaStatusOriginal wpa1 currentScale targetGR currentReplicas 1
             metricStatuses True
         else reconcileMetrics r rt wpaStatusOriginal wpa1 currentScale targetGR)"

text \<open>
  \<open>getCurrentScale\<close> is the head of \<^verbatim>\<open>reconcileWPA\<close>, up to the read of
  \<^verbatim>\<open>currentScale.Status.Replicas\<close>: it returns an error, or panics where the source
  calls \<^verbatim>\<open>Error()\<close> on a nil error or reads through the nil scale, or goes on with the
  scale and the group resource of its mapping.
\<close>

definition getCurrentScale ::
  "ReconcileWatermarkPodAutoscaler \<Rightarrow> runtime \<Rightarrow> WatermarkPodAutoscaler \<Rightarrow>
   (Scale \<times> string) result" where
  "getCurrentScale r rt wpa =
     (case ParseGroupVersion rt (ref_APIVersion (ScaleTargetRef (Spec wpa))) of
        Inl err \<Rightarrow> Err (''invalid API version in scale target reference: '' @ err)
      | Inr targetGroup \<Rightarrow>
          (case restMapper_RESTMappings r (targetGroup, ref_Kind (ScaleTargetRef (Spec wpa))) of
             Inl err \<Rightarrow>
               Err (''unable to determine resource for scale target reference: '' @ err)
           | Inr mappings \<Rightarrow>
               (case getScaleForResourceMappings r (wpa_Namespace wpa)
                       (ref_Name (ScaleTargetRef (Spec wpa))) mappings of
                  (None, targetGR, None) \<Rightarrow> Panic
                | (None, targetGR, Some err) \<Rightarrow>
                    if strings_Contains err ''not found'' then Err err else Panic
                | (Some currentScale, targetGR, err) \<Rightarrow> Ok (currentScale, targetGR))))"

definition reconcileWPA ::
  "ReconcileWatermarkPodAutoscaler \<Rightarrow> runtime \<Rightarrow> WatermarkPodAutoscaler \<Rightarrow> outcome" where
  "reconcileWPA r rt wpa =
     (case getCurrentScale r rt wpa of
        Err err \<Rightarrow> returns (Some err) wpa
      | Panic \<Rightarrow> panics wpa
      | Ok (currentScale, targetGR) \<Rightarrow> reconcileScale r rt wpa currentScale targetGR)"

section \<open>Predicates of the statements\<close>

text \<open>
  The dead band of the specification: the usage is a finite number between the low
  watermark less the tolerance and the high watermark plus the tolerance, bounds
  included.
\<close>

definition inDeadBand :: "WatermarkPodAutoscaler \<Rightarrow> float64 \<Rightarrow> int \<Rightarrow> int \<Rightarrow> bool" where
  "inDeadBand wpa u lowMark highMark =
     (case (Tolerance (Spec wpa), u) of
        (Fin t, Fin v) \<Rightarrow> of_int lowMark * (1 - t) \<le> v \<and> v \<le> of_int highMark * (1 + t)
      | _ \<Rightarrow> False)"


text \<open>
  The two rate limits of \<open>N\<close> replicas are representable when both factors are finite
  and \<open>N + max(1, \<lfloor>fUp / 100 \<sqdot> N\<rfloor>)\<close> and \<open>N - max(1, \<lfloor>fDown / 100 \<sqdot> N\<rfloor>)\<close> fit an
  \<^verbatim>\<open>int32\<close>, so that the conversions of \<^verbatim>\<open>calculateScaleUpLimit\<close> and
  \<^verbatim>\<open>calculateScaleDownLimit\<close> are defined by the language.
\<close>

definition limitsRepresentable :: "WatermarkPodAutoscaler \<Rightarrow> int \<Rightarrow> bool" where
  "limitsRepresentable wpa N =
     (case (ScaleUpLimitFactor (Spec wpa), ScaleDownLimitFactor (Spec wpa)) of
        (Fin fUp, Fin fDown) \<Rightarrow>
          int32_range (N + max 1 \<lfloor>fUp / 100 * of_int N\<rfloor>) \<and>
          int32_range (N - max 1 \<lfloor>fDown / 100 * of_int N\<rfloor>)
      | _ \<Rightarrow> False)"

text \<open>
  Setting a condition changes the list of conditions of the status and nothing else:
  \<open>withoutConditions\<close> is the rest of an autoscaler object.
\<close>

definition withoutConditions :: "WatermarkPodAutoscaler \<Rightarrow> WatermarkPodAutoscaler" where
  "withoutConditions wpa = wpa\<lparr>Status := (Status wpa)\<lparr>Conditions := []\<rparr>\<rparr>"

section \<open>Example inputs\<close>

definition exampleRuntime :: runtime where
  "exampleRuntime =
     \<lparr>oor_int32 = (\<lambda>x. 0), oor_int64 = (\<lambda>x. 0), time_Now = 1000 * Second,
      ParseGroupVersion = (\<lambda>gv. Inr ''apps''),
      labels_Parse = (\<lambda>s. Inr s),
      LabelSelectorAsSelector = (\<lambda>sel. Inr ''app=web''),
      fmt_v_MatchLabels = (\<lambda>m. ''map[]''),
      fmt_v_LabelSelector = (\<lambda>sel. ''nil''),
      fmt_v_Selector = (\<lambda>sel. ''app=web'')\<rparr>"

text \<open>
  The policy of the first scenario of the specification: ten replicas, watermarks 5 and
  8 (5000 and 8000 milli-units), tolerance 0.1, last scaled 100 seconds before the clock
  reading of \<open>exampleRuntime\<close>.
\<close>

definition examplePolicy :: WatermarkPodAutoscaler where
  "examplePolicy =
     \<lparr>wpa_Name = ''web'', wpa_Namespace = ''default'',
      Spec = \<lparr>DownscaleForbiddenWindowSeconds = 60, UpscaleForbiddenWindowSeconds = 30,
        ScaleUpLimitFactor = Fin 50, ScaleDownLimitFactor = Fin 20, Tolerance = Fin (1 / 10),
        Algorithm = ''average'', DryRun = False,
        ScaleTargetRef =
          \<lparr>ref_Kind = ''Deployment'', ref_Name = ''web'', ref_APIVersion = ''apps/v1''\<rparr>,
        Metrics = [], MinReplicas = Some 1, MaxReplicas = 20, ReadinessDelaySeconds = 10\<rparr>,
      Status = \<lparr>CurrentReplicas = 10, DesiredReplicas = 10, CurrentMetrics = [],
        LastScaleTime = Some (900 * Second), Conditions = []\<rparr>\<rparr>"

text \<open>
  A target with two running and ready pods, each with the same CPU sample, and one
  external metric value. The reconciler finds the target with \<open>replicas\<close> status
  replicas, and its scale update returns \<open>updateResult\<close>.
\<close>

definition readyPod :: "string \<Rightarrow> Pod" where
  "readyPod name =
     \<lparr>pod_Name = name, pod_Namespace = ''default'', pod_Phase = PodRunning,
      pod_StartTime = Some (100 * Second),
      pod_Conditions =
        [\<lparr>pc_Type = PodReady, pc_Status = ConditionTrue,
          pc_LastTransitionTime = 110 * Second\<rparr>]\<rparr>"

definition webCalculator :: "int \<Rightarrow> ReplicaCalculator" where
  "webCalculator usage =
     \<lparr>podLister_List = (\<lambda>namespace selector. Inr [readyPod ''web-0'', readyPod ''web-1'']),
      metricsClient_GetExternalMetric =
        (\<lambda>name namespace selector. Inr ([40000], 985 * Second)),
      metricsClient_GetResourceMetric =
        (\<lambda>name namespace selector.
           Inr ([(''web-0'', usage), (''web-1'', usage)], 990 * Second))\<rparr>"

definition webScale :: "int \<Rightarrow> Scale" where
  "webScale replicas =
     \<lparr>scale_Spec_Replicas = replicas, scale_Status_Replicas = replicas,
      scale_Status_Selector = ''app=web''\<rparr>"

definition webReconciler :: "int \<Rightarrow> int \<Rightarrow> string option \<Rightarrow> ReconcileWatermarkPodAutoscaler" where
  "webReconciler replicas usage updateResult =
     \<lparr>restMapper_RESTMappings =
        (\<lambda>groupKind. Inr [\<lparr>mapping_GroupResource = ''deployments.apps'',
                             mapping_GroupVersion = ''apps/v1''\<rparr>]),
      scaleClient_Get = (\<lambda>namespace targetGR name. (Some (webScale replicas), None)),
      scaleClient_Update = (\<lambda>namespace targetGR scale. updateResult),
      client_Status_Update = (\<lambda>wpa. None),
      replicaCalc = NewReplicaCalculator exampleRuntime (webCalculator usage),
      ConditionReasonSucceededRescale = ''SucceededRescale''\<rparr>"

definition webCpu :: MetricSpec where
  "webCpu =
     \<lparr>ms_Type = ResourceMetricSourceType, ms_External = None,
      ms_Resource = Some \<lparr>res_Name = ''cpu'', res_MetricSelector = Some [(''app'', ''web'')],
        res_HighWatermark = Some 8000, res_LowWatermark = Some 5000\<rparr>\<rparr>"

definition webQueue :: MetricSpec where
  "webQueue =
     \<lparr>ms_Type = ExternalMetricSourceType,
      ms_External = Some \<lparr>ext_MetricName = ''queue'', ext_MetricSelector = Some [(''app'', ''web'')],
        ext_HighWatermark = Some 8000, ext_LowWatermark = Some 5000\<rparr>,
      ms_Resource = None\<rparr>"

definition webPolicy :: WatermarkPodAutoscaler where
  "webPolicy = examplePolicy\<lparr>Spec := (Spec examplePolicy)\<lparr>Metrics := [webCpu]\<rparr>\<rparr>"

definition twoMetricsPolicy :: WatermarkPodAutoscaler where
  "twoMetricsPolicy = examplePolicy\<lparr>Spec := (Spec examplePolicy)\<lparr>Metrics := [webQueue, webCpu]\<rparr>\<rparr>"


definition dryRunPolicy :: WatermarkPodAutoscaler where
  "dryRunPolicy = webPolicy\<lparr>Spec := (Spec webPolicy)\<lparr>DryRun := True\<rparr>\<rparr>"

text \<open>A reconciler whose scale client cannot reach the target.\<close>

definition unreachableReconciler :: ReconcileWatermarkPodAutoscaler where
  "unreachableReconciler =
     (webReconciler 10 9000 None)
       \<lparr>scaleClient_Get := (\<lambda>namespace targetGR name. (None, Some ''connection refused''))\<rparr>"

text \<open>
  A target of three replicas whose only listed pod is pending, while the metrics client
  has a sample for a pod that the lister does not list.
\<close>

definition exampleScale :: Scale where
  "exampleScale =
     \<lparr>scale_Spec_Replicas = 3, scale_Status_Replicas = 3, scale_Status_Selector = ''app=web''\<rparr>"

definition pendingPod :: Pod where
  "pendingPod =
     \<lparr>pod_Name = ''web-1'', pod_Namespace = ''default'', pod_Phase = PodPending,
      pod_StartTime = Some (900 * Second), pod_Conditions = []\<rparr>"

definition strayMetrics :: ReplicaCalculator where
  "strayMetrics =
     \<lparr>podLister_List = (\<lambda>namespace selector. Inr [pendingPod]),
      metricsClient_GetExternalMetric = (\<lambda>name namespace selector. Inl ''no external metrics''),
      metricsClient_GetResourceMetric =
        (\<lambda>name namespace selector. Inr ([(''web-0'', 100000)], 990 * Second))\<rparr>"

definition cpuSource :: ResourceMetricSource where
  "cpuSource =
     \<lparr>res_Name = ''cpu'', res_MetricSelector = Some [(''app'', ''web'')],
      res_HighWatermark = Some 50000, res_LowWatermark = Some 20000\<rparr>"

definition cpuMetric :: MetricSpec where
  "cpuMetric =
     \<lparr>ms_Type = ResourceMetricSourceType, ms_External = None, ms_Resource = Some cpuSource\<rparr>"

definition absolutePolicy :: WatermarkPodAutoscaler where
  "absolutePolicy = examplePolicy\<lparr>Spec := (Spec examplePolicy)\<lparr>Algorithm := ''absolute''\<rparr>\<rparr>"

text \<open>
  The CPU policy without a minimum, and a policy on the external metric alone, with a
  calculator whose external metric is 12000 milli-units for the two ready pods of a
  target of ten replicas.
\<close>

definition noMinimumPolicy :: WatermarkPodAutoscaler where
  "noMinimumPolicy = webPolicy\<lparr>Spec := (Spec webPolicy)\<lparr>MinReplicas := None\<rparr>\<rparr>"

definition queuePolicy :: WatermarkPodAutoscaler where
  "queuePolicy = examplePolicy\<lparr>Spec := (Spec examplePolicy)\<lparr>Metrics := [webQueue]\<rparr>\<rparr>"

definition quietQueueCalculator :: ReplicaCalculator where
  "quietQueueCalculator =
     (webCalculator 6000)
       \<lparr>metricsClient_GetExternalMetric :=
          (\<lambda>name namespace selector. Inr ([12000], 985 * Second))\<rparr>"

definition quietQueueReconciler :: ReconcileWatermarkPodAutoscaler where
  "quietQueueReconciler =
     (webReconciler 10 6000 None)
       \<lparr>replicaCalc := NewReplicaCalculator exampleRuntime quietQueueCalculator\<rparr>"

section \<open>Arithmetic of the model\<close>

lemma floor_rat_numeral: "\<lfloor>(numeral a :: rat) / numeral b\<rfloor> = numeral a div numeral b"
  using floor_divide_of_int_eq [of "numeral a" "numeral b", where ?'a = rat] by simp

lemma floor_rat_neg_numeral:
  "\<lfloor>- ((numeral a :: rat) / numeral b)\<rfloor> = - numeral a div numeral b"
  using floor_divide_of_int_eq [of "- numeral a" "numeral b", where ?'a = rat] by simp

lemma ceiling_rat_numeral:
  "\<lceil>(numeral a :: rat) / numeral b\<rceil> = - (- numeral a div numeral b)"
  by (simp add: ceiling_def floor_rat_neg_numeral)

lemma ceiling_rat_neg_numeral:
  "\<lceil>- ((numeral a :: rat) / numeral b)\<rceil> = - (numeral a div numeral b)"
  by (simp add: ceiling_def floor_rat_numeral)

lemmas rat_round =
  floor_rat_numeral floor_rat_neg_numeral ceiling_rat_numeral ceiling_rat_neg_numeral

lemma to_int32_Fin_of_int: "int32_range z \<Longrightarrow> to_int32 rt (Fin (of_int z)) = z"
  by (simp add: to_int32_def truncate_rat_def)

lemma Duration_Seconds_pos: "fgt (Duration_Seconds d) (Fin 0) = (0 < d)"
  by (simp add: Duration_Seconds_def fgt_def Second_def)

section \<open>The watermark evaluator: its three branches\<close>



section \<open>The cooldown gate\<close>

text \<open>
  C5. The gate decides on the current replicas \<open>N\<close>, the normalized proposal \<open>D\<close>, the
  last scale time \<open>T0\<close>, the two windows and the timestamp \<open>t\<close> of the proposal. With a
  last scale time it allows enactment exactly when \<open>D > N\<close> and \<open>T0 + Wup \<le> t\<close>, or
  \<open>D < N\<close> and \<open>T0 + Wdown \<le> t\<close>, so never when \<open>D = N\<close>. Without a last scale time it
  always allows it.
\<close>

theorem shouldScale_gate:
  "fst (shouldScale rt wpa N D t) =
     (case LastScaleTime (Status wpa) of
        None \<Rightarrow> True
      | Some T0 \<Rightarrow>
          D > N \<and> T0 + UpscaleForbiddenWindowSeconds (Spec wpa) * Second \<le> t \<or>
          D < N \<and> T0 + DownscaleForbiddenWindowSeconds (Spec wpa) * Second \<le> t)"
  by (auto simp: shouldScale_def canScale_def Duration_Seconds_pos Let_def split: option.splits)

section \<open>Fetching the scale: the error always names what was not found\<close>

lemma strings_Contains_sublist: "strings_Contains s substr = sublist substr s"
  by (induction s) (auto simp: sublist_Cons_right)

lemma Aggregate_Error_Cons:
  "es \<noteq> [] \<Longrightarrow>
   Aggregate_Error (e # es) = ''['' @ e @ concat (map ((@) '', '') es) @ '']''"
  by (cases es) (simp_all add: Aggregate_Error_def)

lemma Aggregate_Error_last: "sublist m (Aggregate_Error (errs @ [m]))"
proof (cases errs)
  case Nil
  then show ?thesis by (simp add: Aggregate_Error_def)
next
  case (Cons e es)
  have "Aggregate_Error (errs @ [m]) =
          ''['' @ e @ concat (map ((@) '', '') (es @ [m])) @ '']''"
    using Cons Aggregate_Error_Cons [of "es @ [m]" e] by simp
  also have "\<dots> = (''['' @ e @ concat (map ((@) '', '') es) @ '', '') @ m @ '']''"
    by simp
  finally show ?thesis
    by (metis sublist_appendI)
qed

lemma not_found_in_scale_not_found: "sublist ''not found'' ''scale not found''"
proof -
  have "''scale not found'' = ''scale '' @ ''not found''" by simp
  then show ?thesis by (metis sublist_append_leftI)
qed

lemma getScaleForResourceMappings_None:
  assumes "fst (getScaleForResourceMappings r ns name mappings) = None"
  shows "\<exists>errs. snd (snd (getScaleForResourceMappings r ns name mappings)) =
           Some (Aggregate_Error (errs @ [''scale not found'']))"
  using assms
  by (auto simp: getScaleForResourceMappings_def NewAggregate_def split: prod.splits)

lemma getScaleForResourceMappings_not_found:
  assumes "getScaleForResourceMappings r ns name mappings = (None, gr, err)"
  shows "\<exists>e. err = Some e \<and> strings_Contains e ''not found''"
proof -
  from assms have "fst (getScaleForResourceMappings r ns name mappings) = None" by simp
  from getScaleForResourceMappings_None [OF this] assms obtain errs where
    e: "err = Some (Aggregate_Error (errs @ [''scale not found'']))" by auto
  have "sublist ''not found'' (Aggregate_Error (errs @ [''scale not found'']))"
    using not_found_in_scale_not_found Aggregate_Error_last
    by (meson sublist_order.order.trans)
  with e show ?thesis by (simp add: strings_Contains_sublist)
qed

text \<open>
  C9, as stated: some input makes every REST mapping fail to yield a scale while the
  aggregated error message lacks the substring "not found", so that \<^verbatim>\<open>reconcileWPA\<close>
  passes the error check and reads through the nil scale. No input does:
  \<^verbatim>\<open>getScaleForResourceMappings\<close> appends the error "scale not found" whenever the scale
  is nil.
\<close>

theorem nil_scale_error_names_not_found:
  "\<not> (\<exists>r ns name mappings gr e.
         getScaleForResourceMappings r ns name mappings = (None, gr, Some e) \<and>
         \<not> strings_Contains e ''not found'')"
  using getScaleForResourceMappings_not_found by blast

text \<open>
  C9, amended: whenever every REST mapping fails to yield a scale, the aggregated error
  contains "not found", and \<^verbatim>\<open>reconcileWPA\<close> returns that error without reading the
  scale.
\<close>

theorem reconcileWPA_returns_fetch_error:
  assumes "ParseGroupVersion rt (ref_APIVersion (ScaleTargetRef (Spec wpa))) = Inr g"
    and "restMapper_RESTMappings r (g, ref_Kind (ScaleTargetRef (Spec wpa))) = Inr mappings"
    and "fst (getScaleForResourceMappings r (wpa_Namespace wpa)
                (ref_Name (ScaleTargetRef (Spec wpa))) mappings) = None"
  shows "\<exists>e. snd (snd (getScaleForResourceMappings r (wpa_Namespace wpa)
                (ref_Name (ScaleTargetRef (Spec wpa))) mappings)) = Some e \<and>
             strings_Contains e ''not found'' \<and>
             reconcileWPA r rt wpa = returns (Some e) wpa"
proof -
  obtain sc gr err where g: "getScaleForResourceMappings r (wpa_Namespace wpa)
                (ref_Name (ScaleTargetRef (Spec wpa))) mappings = (sc, gr, err)"
    by (metis prod_cases3)
  with assms(3) have sc: "sc = None" by simp
  from getScaleForResourceMappings_not_found [OF g [unfolded sc]] obtain e where
    e: "err = Some e" "strings_Contains e ''not found''" by auto
  show ?thesis
    using assms(1,2) g sc e by (simp add: reconcileWPA_def getCurrentScale_def)
qed

theorem reconcileWPA_returns_fetch_error_witness:
  "reconcileWPA unreachableReconciler exampleRuntime webPolicy =
     returns (Some ''[could not get scale for the GV apps/v1, error: connection refused, scale not found]'')
       webPolicy
   \<and> strings_Contains
        ''[could not get scale for the GV apps/v1, error: connection refused, scale not found]''
        ''not found''"
proof -
  let ?mappings = "[\<lparr>mapping_GroupResource = ''deployments.apps'',
                      mapping_GroupVersion = ''apps/v1''\<rparr>]"
  have g: "ParseGroupVersion exampleRuntime (ref_APIVersion (ScaleTargetRef (Spec webPolicy)))
             = Inr ''apps''"
    by (simp add: exampleRuntime_def)
  have m: "restMapper_RESTMappings unreachableReconciler
             (''apps'', ref_Kind (ScaleTargetRef (Spec webPolicy))) = Inr ?mappings"
    by (simp add: unreachableReconciler_def webReconciler_def)
  have s: "getScaleForResourceMappings unreachableReconciler (wpa_Namespace webPolicy)
             (ref_Name (ScaleTargetRef (Spec webPolicy))) ?mappings
           = (None, ''deployments.apps'',
              Some ''[could not get scale for the GV apps/v1, error: connection refused, scale not found]'')"
    by code_simp
  then have n: "fst (getScaleForResourceMappings unreachableReconciler (wpa_Namespace webPolicy)
             (ref_Name (ScaleTargetRef (Spec webPolicy))) ?mappings) = None"
    by simp
  from reconcileWPA_returns_fetch_error [OF g m n] s
  show ?thesis by simp
qed

text \<open>The head of \<^verbatim>\<open>reconcileWPA\<close> therefore never panics.\<close>

lemma getCurrentScale_no_panic: "getCurrentScale r rt wpa \<noteq> Panic"
  using getScaleForResourceMappings_not_found [of r]
  by (fastforce simp: getCurrentScale_def split: sum.splits prod.splits option.splits)

section \<open>The replica calculator without ready pods\<close>

text \<open>
  The external operation returns an error when no listed pod is tolerated as ready.
\<close>

lemma getReadyPodsCount_none_ready:
  assumes "podLister_List c namespace selector = Inr podList"
    and "filter (toleratedAsReady readinessDelay) podList = []"
  shows "\<exists>e. getReadyPodsCount rt c namespace selector readinessDelay = Err e"
  using assms by (simp add: getReadyPodsCount_def Let_def)

lemma GetExternalMetricReplicas_none_ready:
  assumes "podLister_List c NamespaceAll
             (case labels_Parse rt (scale_Status_Selector target) of Inl err \<Rightarrow> None | Inr l \<Rightarrow> Some l)
           = Inr podList"
    and "filter (toleratedAsReady (ReadinessDelaySeconds (Spec wpa) * Second)) podList = []"
  shows "\<exists>e. GetExternalMetricReplicas rt c target metric wpa = Err e"
  using getReadyPodsCount_none_ready [OF assms, of rt]
  by (auto simp: GetExternalMetricReplicas_def externalUsage_def Let_def)

text \<open>
  C8. Both operations of the replica calculator are to return an error when the
  readiness filter yields an empty ready set. The resource operation tests the metrics
  that remain after the removal of the ignored pods instead: with a sample for a pod
  that the lister does not list it proposes replicas although no pod is ready. Here the
  only listed pod is pending, the algorithm is not the average, and the operation
  proposes 6 replicas for 3.
\<close>

theorem resource_replicas_without_ready_pods:
  "fst (groupPods [pendingPod] [(''web-0'', 100000)] (res_Name cpuSource)
          (ReadinessDelaySeconds (Spec absolutePolicy) * Second)) = []
   \<and> GetResourceReplicas exampleRuntime strayMetrics exampleScale cpuMetric absolutePolicy
         = Ok \<lparr>replicaCount = 6, utilization = 100000, timestamp = 990 * Second\<rparr>"
  by (simp add: GetResourceReplicas_def evaluateWatermarks_def cpuMetric_def absolutePolicy_def
      resourceUsage_def exampleRuntime_def strayMetrics_def exampleScale_def cpuSource_def examplePolicy_def
      groupPods_def groupPod_def pendingPod_def removeMetricsForPods_def sum_int64_def wrap64_def float64_of_int_def Let_def
      getReplicaCount_def to_int32_def to_int64_def truncate_rat_def int32_range_def int64_range_def fgt_def rat_round)

text \<open>
  C10. Some input to the resource operation with the algorithm "average" leaves zero
  ready pods after the grouping while the metric map keeps an entry, a sample for a pod
  absent from the pod list. The usage is then divided by the ready-pod count zero: the
  adjusted usage is infinite, and the operation returns a replica calculation, not an
  error.
\<close>

theorem average_divides_by_zero_ready_pods:
  "fst (groupPods [pendingPod] [(''web-0'', 100000)] (res_Name cpuSource)
          (ReadinessDelaySeconds (Spec examplePolicy) * Second)) = []
   \<and> removeMetricsForPods [(''web-0'', 100000)]
         (snd (groupPods [pendingPod] [(''web-0'', 100000)] (res_Name cpuSource)
            (ReadinessDelaySeconds (Spec examplePolicy) * Second))) = [(''web-0'', 100000)]
   \<and> Algorithm (Spec examplePolicy) = ''average''
   \<and> resourceUsage exampleRuntime strayMetrics exampleScale cpuSource examplePolicy
         = Ok (PInf, 990 * Second)
   \<and> (\<exists>rc. GetResourceReplicas exampleRuntime strayMetrics exampleScale cpuMetric examplePolicy
         = Ok rc)"
  by (simp add: GetResourceReplicas_def evaluateWatermarks_def cpuMetric_def
      resourceUsage_def exampleRuntime_def strayMetrics_def exampleScale_def cpuSource_def examplePolicy_def
      groupPods_def groupPod_def pendingPod_def removeMetricsForPods_def sum_int64_def wrap64_def float64_of_int_def Let_def)

section \<open>The metric aggregator: the largest proposal\<close>

lemma metricProposal_Ok_wpa:
  "metricProposal r rt wpa scale m = (wpa', Ok x) \<Longrightarrow> wpa' = wpa"
  by (auto simp: metricProposal_def Let_def
           split: if_splits MetricSourceType.splits option.splits result.splits)

lemma metricProposal_Ok_eq:
  "snd (metricProposal r rt wpa scale m) = Ok x \<Longrightarrow> metricProposal r rt wpa scale m = (wpa, Ok x)"
  using metricProposal_Ok_wpa [of r rt wpa scale m "fst (metricProposal r rt wpa scale m)" x]
  by (cases "metricProposal r rt wpa scale m") auto

lemma computeReplicasForMetrics_loop_step:
  assumes "snd (metricProposal r rt wpa scale m) = Ok (Some (rc, name, st))"
  shows "computeReplicasForMetrics_loop r rt scale i (m # ms) wpa (replicas, metric, statuses, ts) =
           (if replicas = 0 \<or> replicaCount rc > replicas
            then computeReplicasForMetrics_loop r rt scale (i + 1) ms wpa
                   (replicaCount rc, name, statuses[i := st], timestamp rc)
            else computeReplicasForMetrics_loop r rt scale (i + 1) ms wpa
                   (replicas, metric, statuses[i := st], ts))"
  using metricProposal_Ok_eq [OF assms] by simp

lemma computeReplicasForMetrics_loop_max:
  assumes "\<forall>m\<in>set ms. \<exists>rc name st.
             snd (metricProposal r rt wpa scale m) = Ok (Some (rc, name, st)) \<and> 0 \<le> replicaCount rc"
    and "0 \<le> replicas"
  shows "\<exists>R M S T.
           computeReplicasForMetrics_loop r rt scale i ms wpa (replicas, metric, statuses, ts)
             = (wpa, Ok (R, M, S, T))
           \<and> replicas \<le> R
           \<and> (\<forall>m\<in>set ms. \<forall>rc name st.
                 snd (metricProposal r rt wpa scale m) = Ok (Some (rc, name, st)) \<longrightarrow>
                 replicaCount rc \<le> R)
           \<and> ((R, M, T) = (replicas, metric, ts) \<or>
               (\<exists>m\<in>set ms. \<exists>rc st.
                  snd (metricProposal r rt wpa scale m) = Ok (Some (rc, M, st)) \<and>
                  replicaCount rc = R \<and> timestamp rc = T))"
  using assms
proof (induction ms arbitrary: i replicas metric statuses ts)
  case Nil
  then show ?case by simp
next
  case (Cons m ms)
  from Cons.prems(1) obtain rc name st where
    m: "snd (metricProposal r rt wpa scale m) = Ok (Some (rc, name, st))"
    and nn: "0 \<le> replicaCount rc" by auto
  have rest: "\<forall>m\<in>set ms. \<exists>rc name st.
             snd (metricProposal r rt wpa scale m) = Ok (Some (rc, name, st)) \<and> 0 \<le> replicaCount rc"
    using Cons.prems(1) by simp
  show ?case
  proof (cases "replicas = 0 \<or> replicaCount rc > replicas")
    case True
    from Cons.IH [OF rest nn, of "i + 1" name "statuses[i := st]" "timestamp rc"]
    obtain R M S T where
      l: "computeReplicasForMetrics_loop r rt scale (i + 1) ms wpa
            (replicaCount rc, name, statuses[i := st], timestamp rc) = (wpa, Ok (R, M, S, T))"
      and ge: "replicaCount rc \<le> R"
      and ub: "\<forall>m\<in>set ms. \<forall>rc name st.
                 snd (metricProposal r rt wpa scale m) = Ok (Some (rc, name, st)) \<longrightarrow>
                 replicaCount rc \<le> R"
      and src: "(R, M, T) = (replicaCount rc, name, timestamp rc) \<or>
               (\<exists>m\<in>set ms. \<exists>rc st.
                  snd (metricProposal r rt wpa scale m) = Ok (Some (rc, M, st)) \<and>
                  replicaCount rc = R \<and> timestamp rc = T)"
      by blast
    have "replicas \<le> R" using True ge nn Cons.prems(2) by auto
    moreover have "\<forall>m'\<in>set (m # ms). \<forall>rc name st.
                 snd (metricProposal r rt wpa scale m') = Ok (Some (rc, name, st)) \<longrightarrow>
                 replicaCount rc \<le> R"
      using ub ge m by auto
    moreover have "\<exists>m'\<in>set (m # ms). \<exists>rc st.
                  snd (metricProposal r rt wpa scale m') = Ok (Some (rc, M, st)) \<and>
                  replicaCount rc = R \<and> timestamp rc = T"
      using src m by auto
    ultimately show ?thesis
      using l True by (simp only: computeReplicasForMetrics_loop_step [OF m]) auto
  next
    case False
    from Cons.IH [OF rest Cons.prems(2), of "i + 1" metric "statuses[i := st]" ts]
    obtain R M S T where
      l: "computeReplicasForMetrics_loop r rt scale (i + 1) ms wpa
            (replicas, metric, statuses[i := st], ts) = (wpa, Ok (R, M, S, T))"
      and ge: "replicas \<le> R"
      and ub: "\<forall>m\<in>set ms. \<forall>rc name st.
                 snd (metricProposal r rt wpa scale m) = Ok (Some (rc, name, st)) \<longrightarrow>
                 replicaCount rc \<le> R"
      and src: "(R, M, T) = (replicas, metric, ts) \<or>
               (\<exists>m\<in>set ms. \<exists>rc st.
                  snd (metricProposal r rt wpa scale m) = Ok (Some (rc, M, st)) \<and>
                  replicaCount rc = R \<and> timestamp rc = T)"
      by blast
    have "\<forall>m'\<in>set (m # ms). \<forall>rc name st.
                 snd (metricProposal r rt wpa scale m') = Ok (Some (rc, name, st)) \<longrightarrow>
                 replicaCount rc \<le> R"
      using ub ge m False by auto
    moreover have "(R, M, T) = (replicas, metric, ts) \<or> (\<exists>m'\<in>set (m # ms). \<exists>rc st.
                  snd (metricProposal r rt wpa scale m') = Ok (Some (rc, M, st)) \<and>
                  replicaCount rc = R \<and> timestamp rc = T)"
      using src by auto
    ultimately show ?thesis
      using l False ge by (simp only: computeReplicasForMetrics_loop_step [OF m]) auto
  qed
qed

text \<open>
  C7. For a policy whose metric specs all evaluate successfully, the proposal that
  \<^verbatim>\<open>computeReplicasForMetrics\<close> returns is the maximum of the proposals of the specs: no
  spec proposes more, and one spec proposes exactly it, and the metric name and the
  timestamp returned are those of such a spec. The policy has a metric spec, and no
  proposal is a negative replica count.
\<close>

theorem computeReplicasForMetrics_max:
  assumes ok: "\<forall>m\<in>set (Metrics (Spec wpa)). \<exists>rc name st.
             snd (metricProposal r rt wpa scale m) = Ok (Some (rc, name, st)) \<and> 0 \<le> replicaCount rc"
    and ne: "Metrics (Spec wpa) \<noteq> []"
  shows "\<exists>replicas metric statuses ts.
           snd (computeReplicasForMetrics r rt wpa scale) = Ok (replicas, metric, statuses, ts)
           \<and> (\<forall>m\<in>set (Metrics (Spec wpa)). \<forall>rc name st.
                 snd (metricProposal r rt wpa scale m) = Ok (Some (rc, name, st)) \<longrightarrow>
                 replicaCount rc \<le> replicas)
           \<and> (\<exists>m\<in>set (Metrics (Spec wpa)). \<exists>rc st.
                  snd (metricProposal r rt wpa scale m) = Ok (Some (rc, metric, st)) \<and>
                  replicaCount rc = replicas \<and> timestamp rc = ts)"
proof -
  from ne obtain m ms where ms: "Metrics (Spec wpa) = m # ms" by (cases "Metrics (Spec wpa)") auto
  from ok ms obtain rc name st where
    m: "snd (metricProposal r rt wpa scale m) = Ok (Some (rc, name, st))"
    and nn: "0 \<le> replicaCount rc" by auto
  have rest: "\<forall>m\<in>set ms. \<exists>rc name st.
             snd (metricProposal r rt wpa scale m) = Ok (Some (rc, name, st)) \<and> 0 \<le> replicaCount rc"
    using ok ms by simp
  let ?st = "(replicate (length (Metrics (Spec wpa))) NoMetricStatus)[0 := st]"
  from computeReplicasForMetrics_loop_max [OF rest nn, of 1 name ?st "timestamp rc"]
  obtain R M S T where
      l: "computeReplicasForMetrics_loop r rt scale 1 ms wpa
            (replicaCount rc, name, ?st, timestamp rc) = (wpa, Ok (R, M, S, T))"
      and ge: "replicaCount rc \<le> R"
      and ub: "\<forall>m\<in>set ms. \<forall>rc name st.
                 snd (metricProposal r rt wpa scale m) = Ok (Some (rc, name, st)) \<longrightarrow>
                 replicaCount rc \<le> R"
      and src: "(R, M, T) = (replicaCount rc, name, timestamp rc) \<or>
               (\<exists>m\<in>set ms. \<exists>rc st.
                  snd (metricProposal r rt wpa scale m) = Ok (Some (rc, M, st)) \<and>
                  replicaCount rc = R \<and> timestamp rc = T)"
    by blast
  have first: "computeReplicasForMetrics_loop r rt scale 0 (Metrics (Spec wpa)) wpa
             (0, [], replicate (length (Metrics (Spec wpa))) NoMetricStatus, zero_Time)
          = (wpa, Ok (R, M, S, T))"
    using l by (simp only: ms computeReplicasForMetrics_loop_step [OF m]) (simp add: ms)
  have res: "snd (computeReplicasForMetrics r rt wpa scale) = Ok (R, M, S, T)"
    by (simp add: computeReplicasForMetrics_def first)
  have "\<forall>m'\<in>set (Metrics (Spec wpa)). \<forall>rc name st.
                 snd (metricProposal r rt wpa scale m') = Ok (Some (rc, name, st)) \<longrightarrow>
                 replicaCount rc \<le> R"
    using ub ge m ms by auto
  moreover have "\<exists>m'\<in>set (Metrics (Spec wpa)). \<exists>rc st.
                  snd (metricProposal r rt wpa scale m') = Ok (Some (rc, M, st)) \<and>
                  replicaCount rc = R \<and> timestamp rc = T"
    using src m ms by auto
  ultimately show ?thesis using res by blast
qed

text \<open>
  The sixth scenario of the specification: the external metric proposes 5, the CPU
  metric proposes 12, and the aggregator returns 12 with the name and the timestamp of
  the CPU metric.
\<close>

theorem computeReplicasForMetrics_max_witness:
  "snd (metricProposal (webReconciler 10 9000 None) exampleRuntime twoMetricsPolicy (webScale 10)
          webQueue)
     = Ok (Some (\<lparr>replicaCount = 5, utilization = 20000, timestamp = 985 * Second\<rparr>,
                 ''queue{map[]}'',
                 ExternalMetricStatus (Some [(''app'', ''web'')]) ''queue'' 20000))
   \<and> snd (metricProposal (webReconciler 10 9000 None) exampleRuntime twoMetricsPolicy (webScale 10)
          webCpu)
     = Ok (Some (\<lparr>replicaCount = 12, utilization = 9000, timestamp = 990 * Second\<rparr>,
                 ''cpu{map[]}'', ResourceMetricStatus ''cpu'' 9000))
   \<and> snd (computeReplicasForMetrics (webReconciler 10 9000 None) exampleRuntime twoMetricsPolicy
          (webScale 10))
     = Ok (12, ''cpu{map[]}'',
           [ExternalMetricStatus (Some [(''app'', ''web'')]) ''queue'' 20000,
            ResourceMetricStatus ''cpu'' 9000],
           990 * Second)"
proof -
  have q: "snd (metricProposal (webReconciler 10 9000 None) exampleRuntime twoMetricsPolicy
             (webScale 10) webQueue)
     = Ok (Some (\<lparr>replicaCount = 5, utilization = 20000, timestamp = 985 * Second\<rparr>,
                 ''queue{map[]}'',
                 ExternalMetricStatus (Some [(''app'', ''web'')]) ''queue'' 20000))"
    by code_simp
  have c: "snd (metricProposal (webReconciler 10 9000 None) exampleRuntime twoMetricsPolicy
             (webScale 10) webCpu)
     = Ok (Some (\<lparr>replicaCount = 12, utilization = 9000, timestamp = 990 * Second\<rparr>,
                 ''cpu{map[]}'', ResourceMetricStatus ''cpu'' 9000))"
    by code_simp
  have ms: "Metrics (Spec twoMetricsPolicy) = [webQueue, webCpu]"
    by (simp add: twoMetricsPolicy_def)
  have ok: "\<forall>m\<in>set (Metrics (Spec twoMetricsPolicy)). \<exists>rc name st.
             snd (metricProposal (webReconciler 10 9000 None) exampleRuntime twoMetricsPolicy
                    (webScale 10) m) = Ok (Some (rc, name, st)) \<and> 0 \<le> replicaCount rc"
    using q c by (simp add: ms)
  have ne: "Metrics (Spec twoMetricsPolicy) \<noteq> []"
    by (simp add: ms)
  have r: "snd (computeReplicasForMetrics (webReconciler 10 9000 None) exampleRuntime
                  twoMetricsPolicy (webScale 10))
     = Ok (12, ''cpu{map[]}'',
           [ExternalMetricStatus (Some [(''app'', ''web'')]) ''queue'' 20000,
            ResourceMetricStatus ''cpu'' 9000],
           990 * Second)"
    by code_simp
  from computeReplicasForMetrics_max [OF ok ne] q c r
  show ?thesis by simp
qed

section \<open>What the steps of a reconciliation leave unchanged\<close>

lemma withoutConditions_fields:
  "Spec wpa = Spec (withoutConditions wpa)"
  "wpa_Namespace wpa = wpa_Namespace (withoutConditions wpa)"
  "wpa_Name wpa = wpa_Name (withoutConditions wpa)"
  "LastScaleTime (Status wpa) = LastScaleTime (Status (withoutConditions wpa))"
  "CurrentReplicas (Status wpa) = CurrentReplicas (Status (withoutConditions wpa))"
  "DesiredReplicas (Status wpa) = DesiredReplicas (Status (withoutConditions wpa))"
  "CurrentMetrics (Status wpa) = CurrentMetrics (Status (withoutConditions wpa))"
  by (simp_all add: withoutConditions_def)

lemma same_fields:
  assumes "withoutConditions a = withoutConditions b"
  shows "Spec a = Spec b" "wpa_Namespace a = wpa_Namespace b" "wpa_Name a = wpa_Name b"
    "LastScaleTime (Status a) = LastScaleTime (Status b)"
    "CurrentReplicas (Status a) = CurrentReplicas (Status b)"
    "DesiredReplicas (Status a) = DesiredReplicas (Status b)"
    "CurrentMetrics (Status a) = CurrentMetrics (Status b)"
  using assms withoutConditions_fields by metis+

lemma withoutConditions_setCondition [simp]:
  "withoutConditions (setCondition rt wpa ty st reason msg) = withoutConditions wpa"
  by (simp add: withoutConditions_def setCondition_def)

lemma withoutConditions_metricProposal:
  "withoutConditions (fst (metricProposal r rt wpa scale m)) = withoutConditions wpa"
proof (cases "ms_External m = None \<and> ms_Resource m = None")
  case True
  then show ?thesis by (simp add: metricProposal_def)
next
  case False
  show ?thesis
  proof (cases "ms_Type m")
    case ExternalMetricSourceType
    show ?thesis
    proof (cases "ms_External m")
      case None
      then show ?thesis using False ExternalMetricSourceType by (simp add: metricProposal_def)
    next
      case (Some ext)
      then show ?thesis using False ExternalMetricSourceType
        by (cases "ext_MetricSelector ext";
            cases "itf_GetExternalMetricReplicas (replicaCalc r) scale m wpa")
           (simp_all add: metricProposal_def)
    qed
  next
    case ResourceMetricSourceType
    show ?thesis
    proof (cases "ms_Resource m")
      case None
      then show ?thesis using False ResourceMetricSourceType by (simp add: metricProposal_def)
    next
      case (Some res)
      then show ?thesis using False ResourceMetricSourceType
        by (cases "res_MetricSelector res";
            cases "itf_GetResourceReplicas (replicaCalc r) scale m wpa")
           (simp_all add: metricProposal_def)
    qed
  next
    case (OtherMetricSourceType ty)
    then show ?thesis using False by (simp add: metricProposal_def)
  qed
qed

lemma withoutConditions_loop:
  "withoutConditions (fst (computeReplicasForMetrics_loop r rt scale i ms wpa acc)) =
   withoutConditions wpa"
proof (induction ms arbitrary: i wpa acc)
  case Nil
  then show ?case by simp
next
  case (Cons m ms)
  obtain replicas metric statuses ts where acc: "acc = (replicas, metric, statuses, ts)"
    by (metis prod_cases4)
  obtain wpa' res where mp: "metricProposal r rt wpa scale m = (wpa', res)"
    by (cases "metricProposal r rt wpa scale m") auto
  have s: "withoutConditions wpa' = withoutConditions wpa"
    using withoutConditions_metricProposal [of r rt wpa scale m] mp by simp
  show ?case
    using Cons.IH [of _ wpa'] s
    by (auto simp: acc mp split: result.splits option.splits prod.splits)
qed

lemma withoutConditions_compute:
  "withoutConditions (fst (computeReplicasForMetrics r rt wpa scale)) = withoutConditions wpa"
  using withoutConditions_loop [of r rt scale 0 "Metrics (Spec wpa)" wpa
      "(0, [], replicate (length (Metrics (Spec wpa))) NoMetricStatus, zero_Time)"]
  by (auto simp: computeReplicasForMetrics_def split: prod.splits result.splits)

lemma withoutConditions_shouldScale [simp]:
  "withoutConditions (snd (shouldScale rt wpa N D t)) = withoutConditions wpa"
  by (auto simp: shouldScale_def Let_def split: option.splits)

lemma withoutConditions_normalize [simp]:
  "withoutConditions (snd (normalizeDesiredReplicas rt wpa N D)) = withoutConditions wpa"
  by (simp add: normalizeDesiredReplicas_def Let_def)

lemma calculateScaleUpLimit_cong:
  "Spec wpa' = Spec wpa \<Longrightarrow> calculateScaleUpLimit rt wpa' N = calculateScaleUpLimit rt wpa N"
  by (simp add: calculateScaleUpLimit_def)

lemma calculateScaleDownLimit_cong:
  "Spec wpa' = Spec wpa \<Longrightarrow> calculateScaleDownLimit rt wpa' N = calculateScaleDownLimit rt wpa N"
  by (simp add: calculateScaleDownLimit_def)

lemma convertDesiredReplicasWithRules_cong:
  assumes "Spec wpa' = Spec wpa"
  shows "convertDesiredReplicasWithRules rt wpa' N D mn mx =
         convertDesiredReplicasWithRules rt wpa N D mn mx"
  by (simp only: convertDesiredReplicasWithRules_def calculateScaleUpLimit_cong [OF assms]
        calculateScaleDownLimit_cong [OF assms])

lemma normalizeDesiredReplicas_cong:
  "Spec wpa' = Spec wpa \<Longrightarrow>
   fst (normalizeDesiredReplicas rt wpa' N D) = fst (normalizeDesiredReplicas rt wpa N D)"
  by (simp add: normalizeDesiredReplicas_def Let_def convertDesiredReplicasWithRules_cong [of wpa' wpa])

lemma shouldScale_cong:
  "Spec wpa' = Spec wpa \<Longrightarrow> LastScaleTime (Status wpa') = LastScaleTime (Status wpa) \<Longrightarrow>
   fst (shouldScale rt wpa' N D t) = fst (shouldScale rt wpa N D t)"
  by (simp add: shouldScale_def Let_def split: option.splits)

section \<open>The shape of a reconciliation\<close>

text \<open>
  \<open>reconcileScale\<close> is one of four direct enactments or the metrics branch, and the
  metrics branch either fails without a write or enacts a value of the normalizer under
  the decision of the gate.
\<close>

lemma reconcileScale_cases:
  obtains
    (disabled) wpa' where "scale_Spec_Replicas sc = 0" "withoutConditions wpa' = withoutConditions wpa"
      "reconcileScale r rt wpa sc gr =
         enact r rt (Status wpa) wpa' sc gr (scale_Status_Replicas sc) 0
           (CurrentMetrics (Status wpa)) False"
  | (above) wpa' where "scale_Spec_Replicas sc \<noteq> 0"
      "scale_Status_Replicas sc > MaxReplicas (Spec wpa)" "withoutConditions wpa' = withoutConditions wpa"
      "reconcileScale r rt wpa sc gr =
         enact r rt (Status wpa) wpa' sc gr (scale_Status_Replicas sc) (MaxReplicas (Spec wpa))
           (CurrentMetrics (Status wpa)) True"
  | (below) wpa' m where "scale_Spec_Replicas sc \<noteq> 0"
      "scale_Status_Replicas sc \<le> MaxReplicas (Spec wpa)"
      "MinReplicas (Spec wpa) = Some m" "scale_Status_Replicas sc < m"
      "withoutConditions wpa' = withoutConditions wpa"
      "reconcileScale r rt wpa sc gr =
         enact r rt (Status wpa) wpa' sc gr (scale_Status_Replicas sc) m
           (CurrentMetrics (Status wpa)) True"
  | (zero) wpa' where "scale_Spec_Replicas sc \<noteq> 0"
      "scale_Status_Replicas sc \<le> MaxReplicas (Spec wpa)"
      "\<forall>m. MinReplicas (Spec wpa) = Some m \<longrightarrow> m \<le> scale_Status_Replicas sc"
      "scale_Status_Replicas sc = 0" "withoutConditions wpa' = withoutConditions wpa"
      "reconcileScale r rt wpa sc gr =
         enact r rt (Status wpa) wpa' sc gr (scale_Status_Replicas sc) 1
           (CurrentMetrics (Status wpa)) True"
  | (metrics) wpa' where "scale_Spec_Replicas sc \<noteq> 0"
      "scale_Status_Replicas sc \<le> MaxReplicas (Spec wpa)"
      "\<forall>m. MinReplicas (Spec wpa) = Some m \<longrightarrow> m \<le> scale_Status_Replicas sc"
      "scale_Status_Replicas sc \<noteq> 0" "withoutConditions wpa' = withoutConditions wpa"
      "reconcileScale r rt wpa sc gr = reconcileMetrics r rt (Status wpa) wpa' sc gr"
proof (cases "scale_Spec_Replicas sc = 0")
  case True
  then show ?thesis
    by (intro disabled [where wpa' = "setCondition rt
          (setCondition rt wpa AbleToScale ConditionTrue ''SucceededGetScale''
             ''the WPA controller was able to get the target's current scale'')
          ScalingActive ConditionFalse ''ScalingDisabled''
          ''scaling is disabled since the replica count of the target is zero''"])
       (simp_all add: reconcileScale_def Let_def)
next
  case nz: False
  let ?wpa1 = "setCondition rt wpa AbleToScale ConditionTrue ''SucceededGetScale''
             ''the WPA controller was able to get the target's current scale''"
  have sp: "Spec ?wpa1 = Spec wpa" by (simp add: setCondition_def)
  show ?thesis
  proof (cases "scale_Status_Replicas sc > MaxReplicas (Spec wpa)")
    case True
    then show ?thesis using nz
      by (intro above [where wpa' = ?wpa1]) (simp_all add: reconcileScale_def Let_def sp)
  next
    case le: False
    show ?thesis
    proof (cases "MinReplicas (Spec wpa)")
      case None
      show ?thesis
      proof (cases "scale_Status_Replicas sc = 0")
        case True
        then show ?thesis using nz le None
          by (intro zero [where wpa' = ?wpa1]) (simp_all add: reconcileScale_def Let_def sp)
      next
        case False
        then show ?thesis using nz le None
          by (intro metrics [where wpa' = ?wpa1]) (simp_all add: reconcileScale_def Let_def sp)
      qed
    next
      case (Some m)
      show ?thesis
      proof (cases "scale_Status_Replicas sc < m")
        case True
        then show ?thesis using nz le Some
          by (intro below [where wpa' = ?wpa1 and m = m]) (simp_all add: reconcileScale_def Let_def sp)
      next
        case nb: False
        show ?thesis
        proof (cases "scale_Status_Replicas sc = 0")
          case True
          then show ?thesis using nz le Some nb
            by (intro zero [where wpa' = ?wpa1]) (simp_all add: reconcileScale_def Let_def sp)
        next
          case False
          then show ?thesis using nz le Some nb
            by (intro metrics [where wpa' = ?wpa1]) (simp_all add: reconcileScale_def Let_def sp)
        qed
      qed
    qed
  qed
qed

lemma enact_rescale [simp]:
  "out_rescale (enact r rt orig wpa sc gr N D ms rescale) = rescale"
  by (simp add: enact_def finish_def Let_def split: option.splits)

lemma enact_scale_update:
  "out_scale_update (enact r rt orig wpa sc gr N D ms rescale) =
     (if rescale \<and> \<not> DryRun (Spec wpa)
      then Some (sc\<lparr>scale_Spec_Replicas := D\<rparr>,
                 scaleClient_Update r (wpa_Namespace wpa) gr (sc\<lparr>scale_Spec_Replicas := D\<rparr>))
      else None)"
  by (simp add: enact_def finish_def Let_def setCondition_def split: option.splits)

lemma setStatus_LastScaleTime [simp]:
  "LastScaleTime (Status (setStatus rt wpa c d ms rescale)) =
     (if rescale then Some (time_Now rt) else LastScaleTime (Status wpa))"
  by (simp add: setStatus_def)

lemma setCondition_LastScaleTime [simp]:
  "LastScaleTime (Status (setCondition rt wpa ty st reason msg)) = LastScaleTime (Status wpa)"
  by (simp add: setCondition_def)

lemma setCondition_Spec [simp]: "Spec (setCondition rt wpa ty st reason msg) = Spec wpa"
  by (simp add: setCondition_def)

lemma setCondition_Namespace [simp]:
  "wpa_Namespace (setCondition rt wpa ty st reason msg) = wpa_Namespace wpa"
  by (simp add: setCondition_def)

lemma updateStatusIfNeeded_sent:
  "snd (updateStatusIfNeeded r orig wpa) = Some s \<Longrightarrow> s = Status wpa"
  by (simp add: updateStatusIfNeeded_def split: if_splits)

lemma enact_LastScaleTime:
  "LastScaleTime (Status (out_wpa (enact r rt orig wpa sc gr N D ms rescale))) =
     (if rescale \<and> (DryRun (Spec wpa) \<or>
          scaleClient_Update r (wpa_Namespace wpa) gr (sc\<lparr>scale_Spec_Replicas := D\<rparr>) = None)
      then Some (time_Now rt) else LastScaleTime (Status wpa))"
  by (simp add: enact_def finish_def Let_def setCurrentReplicasInStatus_def split: option.splits)

lemma enact_sent_LastScaleTime:
  assumes "out_status_update (enact r rt orig wpa sc gr N D ms rescale) = Some (s, e)"
  shows "LastScaleTime s =
     (if rescale \<and> (DryRun (Spec wpa) \<or>
          scaleClient_Update r (wpa_Namespace wpa) gr (sc\<lparr>scale_Spec_Replicas := D\<rparr>) = None)
      then Some (time_Now rt) else LastScaleTime (Status wpa))"
  using assms
  by (auto simp: enact_def finish_def Let_def setCurrentReplicasInStatus_def
           dest!: updateStatusIfNeeded_sent split: option.splits if_splits)


lemma reconcileMetrics_cases:
  obtains
    (failed) "\<forall>x. snd (computeReplicasForMetrics r rt wpa sc) \<noteq> Ok x"
      "out_scale_update (reconcileMetrics r rt orig wpa sc gr) = None"
      "\<not> out_rescale (reconcileMetrics r rt orig wpa sc gr)"
      "LastScaleTime (Status (out_wpa (reconcileMetrics r rt orig wpa sc gr))) =
         LastScaleTime (Status wpa)"
      "\<forall>s e. out_status_update (reconcileMetrics r rt orig wpa sc gr) = Some (s, e) \<longrightarrow>
         LastScaleTime s = LastScaleTime (Status wpa)"
  | (proposed) wpa' p nm sts mts where
      "snd (computeReplicasForMetrics r rt wpa sc) = Ok (p, nm, sts, mts)"
      "withoutConditions wpa' = withoutConditions wpa"
      "reconcileMetrics r rt orig wpa sc gr =
         enact r rt orig wpa' sc gr (scale_Status_Replicas sc)
           (fst (normalizeDesiredReplicas rt wpa (scale_Status_Replicas sc)
                   (if p > 0 then p else 0))) sts
           (fst (shouldScale rt wpa (scale_Status_Replicas sc)
                   (fst (normalizeDesiredReplicas rt wpa (scale_Status_Replicas sc)
                           (if p > 0 then p else 0)))
                   (if p > 0 then mts else time_Now rt)))"
proof -
  obtain wpa2 res where c: "computeReplicasForMetrics r rt wpa sc = (wpa2, res)"
    by (cases "computeReplicasForMetrics r rt wpa sc") auto
  have w2: "withoutConditions wpa2 = withoutConditions wpa"
    using withoutConditions_compute [of r rt wpa sc] c by simp
  note f2 = same_fields [OF w2]
  show ?thesis
  proof (cases res)
    case (Err err)
    have "\<forall>x. snd (computeReplicasForMetrics r rt wpa sc) \<noteq> Ok x"
      "out_scale_update (reconcileMetrics r rt orig wpa sc gr) = None"
      "\<not> out_rescale (reconcileMetrics r rt orig wpa sc gr)"
      "LastScaleTime (Status (out_wpa (reconcileMetrics r rt orig wpa sc gr))) =
         LastScaleTime (Status wpa)"
      "\<forall>s e. out_status_update (reconcileMetrics r rt orig wpa sc gr) = Some (s, e) \<longrightarrow>
         LastScaleTime s = LastScaleTime (Status wpa)"
      using c Err f2(4)
      by (auto simp: reconcileMetrics_def Let_def setCurrentReplicasInStatus_def
               dest!: updateStatusIfNeeded_sent split: option.splits)
    then show ?thesis by (rule failed)
  next
    case Panic
    have "\<forall>x. snd (computeReplicasForMetrics r rt wpa sc) \<noteq> Ok x"
      "out_scale_update (reconcileMetrics r rt orig wpa sc gr) = None"
      "\<not> out_rescale (reconcileMetrics r rt orig wpa sc gr)"
      "LastScaleTime (Status (out_wpa (reconcileMetrics r rt orig wpa sc gr))) =
         LastScaleTime (Status wpa)"
      "\<forall>s e. out_status_update (reconcileMetrics r rt orig wpa sc gr) = Some (s, e) \<longrightarrow>
         LastScaleTime s = LastScaleTime (Status wpa)"
      using c Panic f2(4) by (auto simp: reconcileMetrics_def Let_def panics_def)
    then show ?thesis by (rule failed)
  next
    case (Ok x)
    obtain p nm sts mts where x: "x = (p, nm, sts, mts)" by (metis prod_cases4)
    let ?N = "scale_Status_Replicas sc"
    let ?d0 = "if p > 0 then p else 0"
    let ?now = "if p > 0 then mts else time_Now rt"
    let ?norm = "normalizeDesiredReplicas rt wpa2 ?N ?d0"
    let ?gate = "shouldScale rt (snd ?norm) ?N (fst ?norm) ?now"
    have wn: "withoutConditions (snd ?norm) = withoutConditions wpa" using w2 by simp
    have wg: "withoutConditions (snd ?gate) = withoutConditions wpa" using wn by simp
    have n: "fst ?norm = fst (normalizeDesiredReplicas rt wpa ?N ?d0)"
      by (rule normalizeDesiredReplicas_cong [OF f2(1)])
    have g: "fst ?gate = fst (shouldScale rt wpa ?N (fst ?norm) ?now)"
      using same_fields [OF wn] by (intro shouldScale_cong) auto
    have "reconcileMetrics r rt orig wpa sc gr =
            enact r rt orig (snd ?gate) sc gr ?N (fst ?norm) sts (fst ?gate)"
      using c Ok x by (simp add: reconcileMetrics_def Let_def)
    then have "reconcileMetrics r rt orig wpa sc gr =
         enact r rt orig (snd ?gate) sc gr ?N
           (fst (normalizeDesiredReplicas rt wpa ?N ?d0)) sts
           (fst (shouldScale rt wpa ?N (fst (normalizeDesiredReplicas rt wpa ?N ?d0)) ?now))"
      using n g by simp
    moreover have "snd (computeReplicasForMetrics r rt wpa sc) = Ok (p, nm, sts, mts)"
      using c Ok x by simp
    ultimately show ?thesis using wg by (intro proposed [where wpa' = "snd ?gate"]) auto
  qed
qed

lemma reconcileWPA_fetched:
  "getCurrentScale r rt wpa = Ok (sc, gr) \<Longrightarrow> reconcileWPA r rt wpa = reconcileScale r rt wpa sc gr"
  by (simp add: reconcileWPA_def)

lemma normalizeDesiredReplicas_value:
  "fst (normalizeDesiredReplicas rt wpa N D) =
     fst (convertDesiredReplicasWithRules rt wpa N D
            (case MinReplicas (Spec wpa) of Some m \<Rightarrow> m | None \<Rightarrow> 0) (MaxReplicas (Spec wpa)))"
  by (simp add: normalizeDesiredReplicas_def Let_def)

lemma reconcileMetrics_written:
  assumes "out_scale_update (reconcileMetrics r rt orig wpa sc gr) = Some (ns, e)"
  shows "\<exists>d0. scale_Spec_Replicas ns =
           fst (normalizeDesiredReplicas rt wpa (scale_Status_Replicas sc) d0)"
proof (cases rule: reconcileMetrics_cases [where r = r and rt = rt and orig = orig and wpa = wpa and sc = sc and gr = gr])
  case failed
  with assms show ?thesis by simp
next
  case (proposed wpa' p nm sts mts)
  from assms show ?thesis
    unfolding proposed(3) enact_scale_update
    by (auto split: if_splits)
qed

section \<open>The normalizer\<close>

lemma wrap32_range: "int32_range (wrap32 z)"
  by (simp add: wrap32_def int32_range_def) 

lemma to_int32_range: "int32_range (to_int32 rt x)"
  by (cases x) (simp_all add: to_int32_def wrap32_range)

lemma math_Max_Fin: "math_Max (Fin a) (Fin b) = Fin (max a b)"
  by (auto simp: math_Max_def max_def)

lemma math_Min_Fin: "math_Min (Fin a) (Fin b) = Fin (min a b)"
  by (auto simp: math_Min_def min_def)

lemma calculateScaleUpLimit_exact:
  assumes "ScaleUpLimitFactor (Spec wpa) = Fin f"
    and "int32_range (N + max 1 \<lfloor>f / 100 * of_int N\<rfloor>)"
  shows "calculateScaleUpLimit rt wpa N = N + max 1 \<lfloor>f / 100 * of_int N\<rfloor>"
proof -
  have "fadd (float64_of_int N)
          (math_Max (Fin 1) (math_Floor (fmul (fdiv (Fin f) (Fin 100)) (float64_of_int N))))
        = Fin (of_int (N + max 1 \<lfloor>f / 100 * of_int N\<rfloor>))"
    by (simp add: float64_of_int_def math_Max_Fin max_def)
  then show ?thesis
    unfolding calculateScaleUpLimit_def assms(1)
    by (simp only: to_int32_Fin_of_int [OF assms(2)])
qed

lemma calculateScaleDownLimit_exact:
  assumes "ScaleDownLimitFactor (Spec wpa) = Fin f"
    and "int32_range (N - max 1 \<lfloor>f / 100 * of_int N\<rfloor>)"
  shows "calculateScaleDownLimit rt wpa N = N - max 1 \<lfloor>f / 100 * of_int N\<rfloor>"
proof -
  have "fsub (float64_of_int N)
          (math_Max (Fin 1) (math_Floor (fmul (fdiv (Fin f) (Fin 100)) (float64_of_int N))))
        = Fin (of_int (N - max 1 \<lfloor>f / 100 * of_int N\<rfloor>))"
    by (simp add: float64_of_int_def math_Max_Fin max_def fsub_def)
  then show ?thesis
    unfolding calculateScaleDownLimit_def assms(1)
    by (simp only: to_int32_Fin_of_int [OF assms(2)])
qed

lemma limitsRepresentable_strict:
  assumes "limitsRepresentable wpa N"
  shows "calculateScaleDownLimit rt wpa N < N \<and> N < calculateScaleUpLimit rt wpa N"
proof -
  from assms obtain fUp fDown where
    f: "ScaleUpLimitFactor (Spec wpa) = Fin fUp" "ScaleDownLimitFactor (Spec wpa) = Fin fDown"
    and r: "int32_range (N + max 1 \<lfloor>fUp / 100 * of_int N\<rfloor>)"
      "int32_range (N - max 1 \<lfloor>fDown / 100 * of_int N\<rfloor>)"
    by (auto simp: limitsRepresentable_def split: float64.splits)
  show ?thesis
    using calculateScaleUpLimit_exact [OF f(1) r(1), of rt]
      calculateScaleDownLimit_exact [OF f(2) r(2), of rt] by (simp add: max_def)
qed

text \<open>The normalizer on the limits it computed, whatever they are.\<close>

lemma convertDesiredReplicasWithRules_value:
  assumes "int32_range mn" "int32_range mx"
  shows "fst (convertDesiredReplicasWithRules rt wpa N D mn mx) =
     (let sdl = calculateScaleDownLimit rt wpa N;
          sul = calculateScaleUpLimit rt wpa N;
          lo = (if mn = 0 then 1 else if D < sdl then max sdl mn else mn)
      in if D < lo then lo
         else if D > sul then (if D > min sul mx then min sul mx else D)
         else (if D > mx then mx else D))"
proof -
  have a: "to_int32 rt (math_Max (float64_of_int a) (float64_of_int b)) = max a b"
    if "int32_range a" "int32_range b" for a b
  proof -
    have "math_Max (float64_of_int a) (float64_of_int b) = Fin (of_int (max a b))"
      by (simp add: float64_of_int_def math_Max_Fin max_def)
    moreover have "int32_range (max a b)" using that by (simp add: max_def)
    ultimately show ?thesis by (simp add: to_int32_Fin_of_int)
  qed
  have b: "to_int32 rt (math_Min (float64_of_int a) (float64_of_int b)) = min a b"
    if "int32_range a" "int32_range b" for a b
  proof -
    have "math_Min (float64_of_int a) (float64_of_int b) = Fin (of_int (min a b))"
      by (simp add: float64_of_int_def math_Min_Fin min_def)
    moreover have "int32_range (min a b)" using that by (simp add: min_def)
    ultimately show ?thesis by (simp add: to_int32_Fin_of_int)
  qed
  have sd: "int32_range (calculateScaleDownLimit rt wpa N)"
    by (simp add: calculateScaleDownLimit_def to_int32_range)
  have su: "int32_range (calculateScaleUpLimit rt wpa N)"
    by (simp add: calculateScaleUpLimit_def to_int32_range)
  show ?thesis
    by (simp add: convertDesiredReplicasWithRules_def Let_def a [OF sd assms(1)] b [OF su assms(2)])
       (auto simp: max_def min_def)
qed

lemma convertDesiredReplicasWithRules_bounds:
  assumes sdl: "calculateScaleDownLimit rt wpa N < N" and sul: "N < calculateScaleUpLimit rt wpa N"
    and mn: "0 \<le> mn" "mn \<le> N" and mx: "N \<le> mx" "int32_range mx" and n: "1 \<le> N"
  shows "max 1 mn \<le> fst (convertDesiredReplicasWithRules rt wpa N D mn mx)
         \<and> fst (convertDesiredReplicasWithRules rt wpa N D mn mx) \<le> mx"
proof -
  have "int32_range mn" using mn mx by (simp add: int32_range_def)
  from convertDesiredReplicasWithRules_value [OF this mx(2)] show ?thesis
    using sdl sul mn mx n by (auto simp: Let_def)
qed



section \<open>Bounds of the written replica count\<close>

text \<open>
  C2. Every reconciliation that writes a replica count to the scale subresource of the
  target writes a value between \<open>MinReplicas\<close> and \<open>MaxReplicas\<close>, where \<open>MinReplicas\<close>
  counts as 1 when it is zero or unset. The policy is valid (\<open>MaxReplicas\<close> is positive,
  \<open>MinReplicas\<close> is not negative and not above it), the status replica count of the
  target is not negative, and the two rate limits are representable.
\<close>

theorem written_replicas_within_bounds:
  assumes fetched: "getCurrentScale r rt wpa = Ok (currentScale, targetGR)"
    and written: "out_scale_update (reconcileWPA r rt wpa) = Some (newScale, e)"
    and maxr: "1 \<le> MaxReplicas (Spec wpa)" "int32_range (MaxReplicas (Spec wpa))"
    and minr: "\<forall>m. MinReplicas (Spec wpa) = Some m \<longrightarrow> 0 \<le> m \<and> m \<le> MaxReplicas (Spec wpa)"
    and cur: "0 \<le> scale_Status_Replicas currentScale"
    and lim: "limitsRepresentable wpa (scale_Status_Replicas currentScale)"
  shows "max 1 (case MinReplicas (Spec wpa) of None \<Rightarrow> 0 | Some m \<Rightarrow> m)
           \<le> scale_Spec_Replicas newScale
         \<and> scale_Spec_Replicas newScale \<le> MaxReplicas (Spec wpa)"
proof -
  let ?N = "scale_Status_Replicas currentScale"
  let ?mn = "case MinReplicas (Spec wpa) of None \<Rightarrow> 0 | Some m \<Rightarrow> m"
  have mn: "0 \<le> ?mn" "?mn \<le> MaxReplicas (Spec wpa)"
    using minr maxr by (auto split: option.splits)
  from written have w: "out_scale_update (reconcileScale r rt wpa currentScale targetGR)
                          = Some (newScale, e)"
    by (simp add: reconcileWPA_fetched [OF fetched])
  show ?thesis
  proof (cases rule: reconcileScale_cases [of currentScale wpa r rt targetGR])
    case (disabled wpa')
    with w show ?thesis by (simp add: enact_scale_update)
  next
    case (above wpa')
    with w have "scale_Spec_Replicas newScale = MaxReplicas (Spec wpa)"
      by (auto simp: enact_scale_update split: if_splits)
    with mn maxr show ?thesis by simp
  next
    case (below wpa' m)
    with w have "scale_Spec_Replicas newScale = m"
      by (auto simp: enact_scale_update split: if_splits)
    with below cur minr show ?thesis by auto
  next
    case (zero wpa')
    with w have "scale_Spec_Replicas newScale = 1"
      by (auto simp: enact_scale_update split: if_splits)
    with zero minr maxr show ?thesis by (auto split: option.splits)
  next
    case (metrics wpa')
    note f = same_fields [OF metrics(5)]
    from w metrics(6) reconcileMetrics_written [of r rt "Status wpa" wpa' currentScale targetGR newScale e]
    obtain d0 where "scale_Spec_Replicas newScale = fst (normalizeDesiredReplicas rt wpa' ?N d0)"
      by auto
    then have d: "scale_Spec_Replicas newScale =
        fst (convertDesiredReplicasWithRules rt wpa ?N d0 ?mn (MaxReplicas (Spec wpa)))"
      using normalizeDesiredReplicas_cong [OF f(1)] by (simp add: normalizeDesiredReplicas_value option.case_eq_if)
    have n1: "1 \<le> ?N" using metrics(4) cur by simp
    have mnN: "?mn \<le> ?N" using metrics(3) n1 by (auto split: option.splits)
    from limitsRepresentable_strict [OF lim, of rt] convertDesiredReplicasWithRules_bounds [of rt wpa ?N ?mn "MaxReplicas (Spec wpa)" d0]
      mn(1) mnN metrics(2) maxr(2) n1 d
    show ?thesis by simp
  qed
qed

text \<open>
  The first scenario of the specification: ten replicas at a usage of 9000 are scaled
  to 12, between the minimum 1 and the maximum 20.
\<close>

theorem written_replicas_within_bounds_witness:
  "out_scale_update (reconcileWPA (webReconciler 10 9000 None) exampleRuntime webPolicy)
     = Some (webScale 10 \<lparr>scale_Spec_Replicas := 12\<rparr>, None)
   \<and> MinReplicas (Spec webPolicy) = Some 1 \<and> MaxReplicas (Spec webPolicy) = 20
   \<and> (1::int) \<le> 12 \<and> (12::int) \<le> 20"
proof -
  have fetched: "getCurrentScale (webReconciler 10 9000 None) exampleRuntime webPolicy
                   = Ok (webScale 10, ''deployments.apps'')"
    by code_simp
  have written: "out_scale_update (reconcileWPA (webReconciler 10 9000 None) exampleRuntime webPolicy)
                   = Some (webScale 10 \<lparr>scale_Spec_Replicas := 12\<rparr>, None)"
    by code_simp
  have mx: "1 \<le> MaxReplicas (Spec webPolicy)" "int32_range (MaxReplicas (Spec webPolicy))"
    by code_simp+
  have mn: "\<forall>m. MinReplicas (Spec webPolicy) = Some m \<longrightarrow> 0 \<le> m \<and> m \<le> MaxReplicas (Spec webPolicy)"
    by (simp add: webPolicy_def examplePolicy_def)
  have cur: "0 \<le> scale_Status_Replicas (webScale 10)"
    by code_simp
  have lim: "limitsRepresentable webPolicy (scale_Status_Replicas (webScale 10))"
    by code_simp
  from written_replicas_within_bounds [OF fetched written mx mn cur lim]
  show ?thesis
    using written by (simp add: webPolicy_def examplePolicy_def webScale_def)
qed

section \<open>Rate limits of the written replica count\<close>




text \<open>
  The minimum matters to the lower limit. With \<open>MinReplicas\<close> unset the first case of
  \<^verbatim>\<open>convertDesiredReplicasWithRules\<close> takes 1 as the least allowed count and the
  scale-down limit is not consulted: on a usage far below the low watermark, ten
  replicas are written 1 without a minimum and 8 with the minimum 1.
\<close>

lemma unset_minimum_skips_scale_down_limit:
  "out_scale_update (reconcileWPA (webReconciler 10 100 None) exampleRuntime noMinimumPolicy)
     = Some (webScale 10 \<lparr>scale_Spec_Replicas := 1\<rparr>, None)
   \<and> out_scale_update (reconcileWPA (webReconciler 10 100 None) exampleRuntime webPolicy)
     = Some (webScale 10 \<lparr>scale_Spec_Replicas := 8\<rparr>, None)"
  by code_simp

section \<open>The last scale time\<close>

lemma enact_frame:
  assumes "\<not> (out_rescale (enact r rt orig wpa sc gr N D ms rescale) \<and>
              (DryRun (Spec wpa) \<or>
               (\<exists>sc'. out_scale_update (enact r rt orig wpa sc gr N D ms rescale) = Some (sc', None))))"
  shows "LastScaleTime (Status (out_wpa (enact r rt orig wpa sc gr N D ms rescale))) =
           LastScaleTime (Status wpa)
         \<and> (\<forall>s e. out_status_update (enact r rt orig wpa sc gr N D ms rescale) = Some (s, e) \<longrightarrow>
               LastScaleTime s = LastScaleTime (Status wpa))"
proof -
  from assms have c: "\<not> (rescale \<and> (DryRun (Spec wpa) \<or>
          scaleClient_Update r (wpa_Namespace wpa) gr (sc\<lparr>scale_Spec_Replicas := D\<rparr>) = None))"
    by (auto simp: enact_scale_update)
  show ?thesis
    using c enact_LastScaleTime [of r rt orig wpa sc gr N D ms rescale]
      enact_sent_LastScaleTime [of r rt orig wpa sc gr N D ms rescale]
    by auto
qed

text \<open>
  C6, as stated: the stored \<open>LastScaleTime\<close> changes only when the controller writes a
  new replica count to the scale subresource. In dry-run mode the controller writes no
  scale, and still records the time of the enactment that it skipped, in the object and
  in the status that it sends to the status update.
\<close>

theorem dry_run_counterexample:
  "out_scale_update (reconcileWPA (webReconciler 10 9000 None) exampleRuntime dryRunPolicy) = None
   \<and> LastScaleTime (Status dryRunPolicy) = Some (900 * Second)
   \<and> LastScaleTime (Status (out_wpa
         (reconcileWPA (webReconciler 10 9000 None) exampleRuntime dryRunPolicy)))
       = Some (1000 * Second)
   \<and> map_option (\<lambda>sent. (LastScaleTime (fst sent), snd sent))
        (out_status_update (reconcileWPA (webReconciler 10 9000 None) exampleRuntime dryRunPolicy))
       = Some (Some (1000 * Second), None)"
  by code_simp

text \<open>
  C6, amended: \<open>LastScaleTime\<close> changes only when the reconciliation reaches the
  enactment with \<^verbatim>\<open>rescale\<close> true and either the policy is in dry-run mode or the
  write of the scale succeeds. On every other reconciliation, a failed write included,
  it is unchanged in the object and in the status sent to the status update.
\<close>

theorem LastScaleTime_changes_only_on_enactment:
  assumes "\<not> (out_rescale (reconcileWPA r rt wpa) \<and>
              (DryRun (Spec wpa) \<or>
               (\<exists>sc. out_scale_update (reconcileWPA r rt wpa) = Some (sc, None))))"
  shows "LastScaleTime (Status (out_wpa (reconcileWPA r rt wpa))) = LastScaleTime (Status wpa)
         \<and> (\<forall>s e. out_status_update (reconcileWPA r rt wpa) = Some (s, e) \<longrightarrow>
               LastScaleTime s = LastScaleTime (Status wpa))"
proof (cases "getCurrentScale r rt wpa")
  case (Ok x)
  obtain sc gr where x: "x = (sc, gr)" by (cases x) auto
  have eq: "reconcileWPA r rt wpa = reconcileScale r rt wpa sc gr"
    using Ok x by (simp add: reconcileWPA_def)
  have via_enact: ?thesis
    if "withoutConditions wpa' = withoutConditions wpa"
      and "reconcileScale r rt wpa sc gr = enact r rt orig wpa' sc gr N D ms rescale"
    for wpa' orig N D ms rescale
    using enact_frame [of r rt orig wpa' sc gr N D ms rescale] assms same_fields [OF that(1)]
    unfolding eq that(2) by simp
  show ?thesis
  proof (cases rule: reconcileScale_cases [of sc wpa r rt gr])
    case (disabled wpa')
    then show ?thesis using via_enact by blast
  next
    case (above wpa')
    then show ?thesis using via_enact by blast
  next
    case (below wpa' m)
    then show ?thesis using via_enact by blast
  next
    case (zero wpa')
    then show ?thesis using via_enact by blast
  next
    case (metrics wpa')
    note f = same_fields [OF metrics(5)]
    show ?thesis
    proof (cases rule: reconcileMetrics_cases [where r = r and rt = rt and orig = "Status wpa" and wpa = wpa' and sc = sc and gr = gr])
      case failed
      then show ?thesis unfolding eq metrics(6) using f by simp
    next
      case (proposed wpa'' p nm sts mts)
      have "withoutConditions wpa'' = withoutConditions wpa"
        using proposed(2) metrics(5) by simp
      then show ?thesis using via_enact proposed(3) metrics(6) by metis
    qed
  qed
next
  case (Err err)
  then show ?thesis by (simp add: reconcileWPA_def returns_def)
next
  case Panic
  then show ?thesis by (simp add: reconcileWPA_def panics_def)
qed

text \<open>A write that fails with a conflict leaves the last scale time as it was.\<close>

theorem LastScaleTime_changes_only_on_enactment_witness:
  "out_scale_update (reconcileWPA (webReconciler 10 9000 (Some ''conflict'')) exampleRuntime webPolicy)
     = Some (webScale 10 \<lparr>scale_Spec_Replicas := 12\<rparr>, Some ''conflict'')
   \<and> LastScaleTime (Status (out_wpa
         (reconcileWPA (webReconciler 10 9000 (Some ''conflict'')) exampleRuntime webPolicy)))
       = LastScaleTime (Status webPolicy)"
proof -
  have failed: "out_scale_update
      (reconcileWPA (webReconciler 10 9000 (Some ''conflict'')) exampleRuntime webPolicy)
     = Some (webScale 10 \<lparr>scale_Spec_Replicas := 12\<rparr>, Some ''conflict'')"
    by code_simp
  have dry: "\<not> DryRun (Spec webPolicy)"
    by code_simp
  have h: "\<not> (out_rescale
               (reconcileWPA (webReconciler 10 9000 (Some ''conflict'')) exampleRuntime webPolicy) \<and>
              (DryRun (Spec webPolicy) \<or>
               (\<exists>sc. out_scale_update
                  (reconcileWPA (webReconciler 10 9000 (Some ''conflict'')) exampleRuntime webPolicy)
                  = Some (sc, None))))"
    using failed dry by simp
  from LastScaleTime_changes_only_on_enactment [OF h] failed
  show ?thesis by simp
qed

section \<open>The dead band\<close>











text \<open>
  The external calculator evaluates the watermarks on the count of ready pods. With two
  ready pods under a target of ten status replicas, a usage in the dead band proposes
  two replicas, and the reconciliation writes the scale-down limit 8.
\<close>

lemma external_dead_band_proposes_ready_count:
  "externalUsage exampleRuntime quietQueueCalculator (webScale 10) webQueue queuePolicy
     = Ok (2, Fin 6000, 985 * Second)
   \<and> inDeadBand queuePolicy (Fin 6000) 5000 8000
   \<and> LastScaleTime (Status queuePolicy) = Some (900 * Second)
   \<and> out_scale_update (reconcileWPA quietQueueReconciler exampleRuntime queuePolicy)
     = Some (webScale 10 \<lparr>scale_Spec_Replicas := 8\<rparr>, None)"
  by code_simp

end
